theory Spec2Isabelle
  imports Complex_Main "HOL-Library.Sublist" "HOL-Library.Multiset"
begin


section \<open>Python values\<close>

text \<open>
  Exceptions are values. \<open>TimestampError\<close> stands for the \<^verbatim>\<open>KeyError\<close> or \<^verbatim>\<open>ValueError\<close> of
  reading and parsing \<^verbatim>\<open>created_at\<close>; \<open>RequestException\<close> for any failure of an HTTP
  call (no connection, an error status turned into an exception, a body that is not JSON
  or not of the expected shape), with the text of the exception.
\<close>

datatype exn =
    TimestampError
  | TypeError
  | RequestException string
  | IntegrityError
  | HTTPException nat

text \<open>\<^verbatim>\<open>str(n)\<close> of an integer, for the f-strings.\<close>

definition digit :: "nat \<Rightarrow> char" where
  "digit d = ''0123456789'' ! d"

fun str_nat :: "nat \<Rightarrow> string" where
  "str_nat n = (if n < 10 then [digit n] else str_nat (n div 10) @ [digit (n mod 10)])"

declare str_nat.simps [simp del]


text \<open>\<^verbatim>\<open>xs[-n:]\<close> for a positive \<open>n\<close>.\<close>

definition last_n :: "nat \<Rightarrow> 'x list \<Rightarrow> 'x list" where
  "last_n n xs = drop (length xs - n) xs"

text \<open>
  What an HTTP call gives: it raises, or it returns a status code and a decoded body.
\<close>

datatype 'b reply = Raised string | Reply nat 'b

section \<open>Source adapters\<close>

text \<open>
  \<^verbatim>\<open>backend/app/external_data.py\<close>. An adapter turns the reply of its provider into the
  alerts \<^verbatim>\<open>{'title', 'description', 'severity', 'lat', 'lon', 'source'}\<close>, or returns
  \<^verbatim>\<open>None\<close>. The descriptions are free text with measured values in them and are left out.
\<close>

record source_alert =
  title :: string
  severity :: int
  lat :: real
  lon :: real
  source :: string

text \<open>
  \<^verbatim>\<open>response = self.session.get(...); response.raise_for_status(); data = response.json()\<close>:
  the call can raise, an error status raises, and otherwise the body is read.
\<close>

definition json_of :: "'b reply \<Rightarrow> exn + 'b" where
  "json_of response =
     (case response of
        Raised e \<Rightarrow> Inl (RequestException e)
      | Reply status_code body \<Rightarrow>
          if 400 \<le> status_code \<and> status_code < 600 then Inl (RequestException ''HTTPError'')
          else Inr body)"

subsection \<open>OpenWeatherMap\<close>

text \<open>
  The body is indexed for \<^verbatim>\<open>data['weather'][0]['main']\<close>, \<^verbatim>\<open>data['main']['temp']\<close>,
  \<^verbatim>\<open>data['wind']['speed']\<close> and \<^verbatim>\<open>data['main']['humidity']\<close>; a missing one is a \<^verbatim>\<open>KeyError\<close>,
  which the handler of the adapter catches like everything else.
\<close>

record weather_body =
  weather_main :: "string option"
  temp :: "real option"
  wind_speed :: "real option"
  humidity :: "real option"

definition fetch_weather_alerts ::
  "string \<Rightarrow> weather_body reply \<Rightarrow> real \<Rightarrow> real \<Rightarrow> source_alert list option" where
  "fetch_weather_alerts api_key response la lo =
     (if api_key = [] then None
      else
        case json_of response of
          Inl e \<Rightarrow> None
        | Inr data \<Rightarrow>
            (case (weather_main data, temp data, wind_speed data, humidity data) of
               (Some w, Some t, Some ws, Some h) \<Rightarrow>
                 Some
                   ((if w \<in> set [''Thunderstorm'', ''Hurricane'', ''Tornado''] then
                       [\<lparr>title = (''Alerta Meteorol'' @ [CHR 0xF3] @ ''gica: '') @ w, severity = 4, lat = la, lon = lo,
                         source = ''OPENWEATHER''\<rparr>]
                     else []) @
                    (if t > 35 then
                       [\<lparr>title = ''Alerta de Temperatura Extrema'', severity = 3, lat = la,
                         lon = lo, source = ''OPENWEATHER''\<rparr>]
                     else []) @
                    (if ws > 15 then
                       [\<lparr>title = ''Alerta de Vientos Fuertes'', severity = 3, lat = la,
                         lon = lo, source = ''OPENWEATHER''\<rparr>]
                     else []))
             | _ \<Rightarrow> None))"

subsection \<open>Open-Meteo\<close>

text \<open>
  The body is read with \<^verbatim>\<open>get\<close>: the current precipitation and weather code default to 0,
  the daily sums to the empty list.
\<close>

record meteo_body =
  precipitation :: "real option"
  weather_code :: "int option"
  precipitation_sum :: "real list"

definition fetch_open_meteo_data ::
  "meteo_body reply \<Rightarrow> real \<Rightarrow> real \<Rightarrow> source_alert list option" where
  "fetch_open_meteo_data response la lo =
     (case json_of response of
        Inl e \<Rightarrow> None
      | Inr data \<Rightarrow>
          let rain = (case precipitation data of None \<Rightarrow> 0 | Some p \<Rightarrow> p);
              code = (case weather_code data of None \<Rightarrow> 0 | Some c \<Rightarrow> c);
              daily_precipitation = precipitation_sum data
          in Some
               ((if code \<in> set [95, 96, 99] then
                   [\<lparr>title = ''Alerta de Tormenta Severa'', severity = 4, lat = la, lon = lo,
                     source = ''OPEN_METEO''\<rparr>]
                 else []) @
                (if rain > 20 then
                   [\<lparr>title = ''Alerta de Lluvia Intensa'', severity = 3, lat = la, lon = lo,
                     source = ''OPEN_METEO''\<rparr>]
                 else []) @
                (if daily_precipitation \<noteq> [] \<and> Max (set daily_precipitation) > 30 then
                   [\<lparr>title = ''Alerta de Lluvias Futuras'', severity = 2, lat = la, lon = lo,
                     source = ''OPEN_METEO''\<rparr>]
                 else [])))"

subsection \<open>GDACS\<close>

text \<open>
  An event has an alert level, a title and a geometry. The adapter takes the first point
  when \<^verbatim>\<open>coords[0][0]\<close> is a list, and unpacks it into longitude and latitude: a list of
  another length is a \<^verbatim>\<open>ValueError\<close>, and an empty \<^verbatim>\<open>coords[0]\<close> an \<^verbatim>\<open>IndexError\<close> before
  that. Any other geometry gets the default position. One event that raises ends the whole
  adapter.
\<close>

datatype geometry = NoPolygon | EmptyRing | FirstPoint "real list"

record gdacs_event =
  alertlevel :: "string option"
  event_title :: "string option"
  event_geometry :: geometry

definition severity_map :: "string option \<Rightarrow> int" where
  "severity_map alert_level =
     (if alert_level = Some ''Green'' then 2
      else if alert_level = Some ''Orange'' then 3
      else if alert_level = Some ''Red'' then 4
      else 2)"

fun gdacs_alerts :: "gdacs_event list \<Rightarrow> source_alert list option" where
  "gdacs_alerts [] = Some []"
| "gdacs_alerts (event # events) =
     (case (case event_geometry event of
              NoPolygon \<Rightarrow> Some (14.625, -90.525)
            | EmptyRing \<Rightarrow> None
            | FirstPoint p \<Rightarrow> (case p of [lo, la] \<Rightarrow> Some (la, lo) | _ \<Rightarrow> None)) of
        None \<Rightarrow> None
      | Some (la, lo) \<Rightarrow>
          (case gdacs_alerts events of
             None \<Rightarrow> None
           | Some alerts \<Rightarrow>
               Some (\<lparr>title = ''GDACS: '' @ (case event_title event of None \<Rightarrow> [] | Some t \<Rightarrow> t),
                      severity = severity_map (alertlevel event), lat = la, lon = lo,
                      source = ''GDACS''\<rparr> # alerts)))"

definition fetch_gdacs_alerts :: "gdacs_event list reply \<Rightarrow> source_alert list option" where
  "fetch_gdacs_alerts response =
     (case json_of response of
        Inl e \<Rightarrow> None
      | Inr features \<Rightarrow> gdacs_alerts features)"

subsection \<open>NASA POWER\<close>

text \<open>The body is the list of the daily temperatures, empty when the keys are missing.\<close>

definition fetch_nasa_power_data ::
  "real list reply \<Rightarrow> real \<Rightarrow> real \<Rightarrow> source_alert list option" where
  "fetch_nasa_power_data response la lo =
     (case json_of response of
        Inl e \<Rightarrow> None
      | Inr temperatures \<Rightarrow>
          Some
            (if temperatures \<noteq> [] \<and>
                sum_list temperatures / real (length temperatures) > 30 then
               [\<lparr>title = ''Tendencia de Temperaturas Altas'', severity = 2, lat = la, lon = lo,
                 source = ''NASA_POWER''\<rparr>]
             else []))"

subsection \<open>The aggregate fetch\<close>

text \<open>\<^verbatim>\<open>if alerts: all_alerts.extend(alerts)\<close>\<close>

definition extend_with :: "source_alert list option \<Rightarrow> source_alert list" where
  "extend_with alerts = (case alerts of None \<Rightarrow> [] | Some found \<Rightarrow> found)"

text \<open>
  \<^verbatim>\<open>check_all_sources\<close> asks the four providers in turn, each at the default position;
  OpenWeatherMap only with an API key.
\<close>

definition check_all_sources ::
  "string \<Rightarrow> meteo_body reply \<Rightarrow> weather_body reply \<Rightarrow> gdacs_event list reply \<Rightarrow>
   real list reply \<Rightarrow> source_alert list" where
  "check_all_sources api_key meteo weather gdacs nasa =
     extend_with (fetch_open_meteo_data meteo 14.625 (-90.525)) @
     (if api_key \<noteq> [] then extend_with (fetch_weather_alerts api_key weather 14.625 (-90.525))
      else []) @
     extend_with (fetch_gdacs_alerts gdacs) @
     extend_with (fetch_nasa_power_data nasa 14.625 (-90.525))"

text \<open>A reply of Open-Meteo with heavy rain, and a GDACS event at the orange level.\<close>

definition rainy :: "meteo_body reply" where
  "rainy = Reply 200 \<lparr>precipitation = Some 25, weather_code = Some 3, precipitation_sum = []\<rparr>"

definition orange_event :: "gdacs_event list reply" where
  "orange_event = Reply 200
     [\<lparr>alertlevel = Some ''Orange'', event_title = Some ''Flood'', event_geometry = NoPolygon\<rparr>]"

section \<open>Ingestion into the alert store\<close>

text \<open>
  The store is the table of alerts, as the list of its rows in the order of insertion. A
  row has the columns the two declarations of the table give it (\<^verbatim>\<open>backend/app/models.py\<close>
  names the origin \<^verbatim>\<open>source\<close>, \<^verbatim>\<open>backend/app/main.py\<close> has \<^verbatim>\<open>alert_type\<close> instead); the
  creation time, which the database fills in, is left out. The store numbers the rows.
\<close>

record Alert =
  alert_id :: nat
  title :: string
  description :: "string option"
  severity :: int
  lat :: real
  lon :: real
  source :: "string option"
  alert_type :: "string option"

text \<open>\<^verbatim>\<open>session.add(new); session.commit(); session.refresh(new)\<close>\<close>

definition insert_row :: "Alert \<Rightarrow> Alert list \<Rightarrow> Alert list" where
  "insert_row new store = store @ [new\<lparr>alert_id := Suc (length store)\<rparr>]"

text \<open>\<^verbatim>\<open>session.exec(select(Alert).where(Alert.title == title)).first()\<close>\<close>

definition first_titled :: "string \<Rightarrow> Alert list \<Rightarrow> Alert option" where
  "first_titled t store = find (\<lambda>row. Alert.title row = t) store"

subsection \<open>\<^verbatim>\<open>fetch_google_alerts\<close> of \<^verbatim>\<open>backend/app/google_fetcher.py\<close>\<close>

text \<open>
  An alert of the feed is a JSON object read with \<^verbatim>\<open>get\<close>: a missing title or description
  is \<^verbatim>\<open>None\<close>, a missing severity 2, missing coordinates 0.
\<close>

record coordinates =
  lat :: "real option"
  lng :: "real option"

record raw_alert =
  title :: "string option"
  description :: "string option"
  severity :: "int option"
  coordinates :: "coordinates option"

definition raw_severity :: "raw_alert \<Rightarrow> int" where
  "raw_severity a = (case raw_alert.severity a of None \<Rightarrow> 2 | Some s \<Rightarrow> s)"

definition raw_lat :: "raw_alert \<Rightarrow> real" where
  "raw_lat a =
     (case raw_alert.coordinates a of
        None \<Rightarrow> 0
      | Some c \<Rightarrow> (case coordinates.lat c of None \<Rightarrow> 0 | Some v \<Rightarrow> v))"

definition raw_lon :: "raw_alert \<Rightarrow> real" where
  "raw_lon a =
     (case raw_alert.coordinates a of
        None \<Rightarrow> 0
      | Some c \<Rightarrow> (case coordinates.lng c of None \<Rightarrow> 0 | Some v \<Rightarrow> v))"

text \<open>
  The loop over the feed. Every insertion is committed on its own, so the rows inserted
  before an exception stay. The columns \<^verbatim>\<open>title\<close> and \<^verbatim>\<open>description\<close> are declared \<^verbatim>\<open>str\<close>:
  a row without one of them violates the table's \<^verbatim>\<open>NOT NULL\<close> constraint, the commit raises
  and nothing in the function handles it. No row has a null title, so the existence check
  finds none for a missing title.
\<close>

fun ingest :: "raw_alert list \<Rightarrow> Alert list \<Rightarrow> exn option \<times> Alert list" where
  "ingest [] store = (None, store)"
| "ingest (a # as) store =
     (case raw_alert.title a of
        None \<Rightarrow> (Some IntegrityError, store)
      | Some t \<Rightarrow>
          (case first_titled t store of
             Some existing \<Rightarrow> ingest as store
           | None \<Rightarrow>
               (case raw_alert.description a of
                  None \<Rightarrow> (Some IntegrityError, store)
                | Some d \<Rightarrow>
                    ingest as
                      (insert_row
                         \<lparr>alert_id = 0, Alert.title = t, description = Some d,
                          severity = raw_severity a, lat = raw_lat a, lon = raw_lon a,
                          source = Some ''GOOGLE'', alert_type = None\<rparr>
                         store))))"

text \<open>
  \<^verbatim>\<open>r = requests.get(GOOGLE_URL); data = r.json()\<close> with no handler and no look at the
  status: the body of the reply is the list under \<^verbatim>\<open>"alerts"\<close>, empty when the key is
  missing.
\<close>

definition fetch_google_alerts :: "raw_alert list reply \<Rightarrow> Alert list \<Rightarrow> exn option \<times> Alert list" where
  "fetch_google_alerts response store =
     (case response of
        Raised e \<Rightarrow> (Some (RequestException e), store)
      | Reply status_code alerts \<Rightarrow> ingest alerts store)"

subsection \<open>\<^verbatim>\<open>create_alert\<close> of \<^verbatim>\<open>backend/app/main.py\<close>\<close>

record AlertCreate =
  title :: string
  description :: "string option"
  lat :: real
  lon :: real
  severity :: "int option"
  alert_type :: "string option"

text \<open>
  \<^verbatim>\<open>if not alert_data.title or not alert_data.lat or not alert_data.lon\<close> rejects the empty
  title and a coordinate equal to 0. The row is then inserted with no look at the store. A
  submission with \<^verbatim>\<open>null\<close> for the severity or the type violates the table's constraints;
  the handler turns that into the status 500. Notifications are sent after the commit and
  their failures are swallowed.
\<close>

definition create_alert :: "AlertCreate \<Rightarrow> Alert list \<Rightarrow> (exn + Alert) \<times> Alert list" where
  "create_alert alert_data store =
     (if AlertCreate.title alert_data = [] \<or> AlertCreate.lat alert_data = 0 \<or>
         AlertCreate.lon alert_data = 0 then
        (Inl (HTTPException 400), store)
      else
        case (AlertCreate.severity alert_data, AlertCreate.alert_type alert_data) of
          (Some s, Some ty) \<Rightarrow>
            let store' = insert_row
                  \<lparr>alert_id = 0, Alert.title = AlertCreate.title alert_data,
                   description = AlertCreate.description alert_data,
                   severity = s, lat = AlertCreate.lat alert_data,
                   lon = AlertCreate.lon alert_data, source = None, alert_type = Some ty\<rparr>
                  store
            in (Inr (last store'), store')
        | _ \<Rightarrow> (Inl (HTTPException 500), store))"

subsection \<open>Sequences of ingestion calls\<close>

datatype call = Fetch "raw_alert list reply" | Create AlertCreate

fun perform :: "call \<Rightarrow> Alert list \<Rightarrow> Alert list" where
  "perform (Fetch response) store = snd (fetch_google_alerts response store)"
| "perform (Create alert_data) store = snd (create_alert alert_data store)"

fun run :: "call list \<Rightarrow> Alert list \<Rightarrow> Alert list" where
  "run [] store = store"
| "run (c # cs) store = run cs (perform c store)"

text \<open>The rows of a title, and the submissions of a title among the calls.\<close>

definition titled :: "string \<Rightarrow> Alert list \<Rightarrow> Alert list" where
  "titled t store = filter (\<lambda>row. Alert.title row = t) store"

fun submits :: "string \<Rightarrow> call \<Rightarrow> bool" where
  "submits t (Fetch response) = False"
| "submits t (Create alert_data) = (AlertCreate.title alert_data = t)"

text \<open>A submission and a feed with the same title.\<close>

definition flood_report :: AlertCreate where
  "flood_report = \<lparr>AlertCreate.title = ''Flood'', description = Some ''River'', lat = 14.625,
     lon = -90.525, severity = Some 3, alert_type = Some ''general''\<rparr>"

definition flood_feed :: "raw_alert list reply" where
  "flood_feed = Reply 200
     [\<lparr>raw_alert.title = Some ''Flood'', description = Some ''Feed'', severity = None,
       coordinates = None\<rparr>,
      \<lparr>raw_alert.title = Some ''Flood'', description = Some ''Again'', severity = Some 4,
       coordinates = Some \<lparr>coordinates.lat = Some 14.6, lng = None\<rparr>\<rparr>]"

section \<open>Shelters\<close>

text \<open>
  A shelter as the analysis service reads it: \<^verbatim>\<open>shelter.get('lat', 0)\<close>,
  \<^verbatim>\<open>shelter.get('lon', 0)\<close> and \<^verbatim>\<open>s.get('capacity', 0)\<close>. The backend declares the capacity
  \<^verbatim>\<open>Optional[int]\<close>, so the key can be present with the value \<^verbatim>\<open>null\<close>, which \<^verbatim>\<open>get\<close>
  returns as \<^verbatim>\<open>None\<close>.
\<close>

datatype json_int = Absent | Null | Number int

record shelter =
  lat :: "real option"
  lon :: "real option"
  capacity :: json_int



section \<open>Alert snapshots as the analysis service reads them\<close>

text \<open>
  The analysis service receives alerts as JSON objects and reads four keys of them:
  \<^verbatim>\<open>alert.get('lat', 0)\<close>, \<^verbatim>\<open>alert.get('lon', 0)\<close>, \<^verbatim>\<open>alert.get('severity', 1)\<close> and
  \<^verbatim>\<open>alert['created_at']\<close>. A key that may be absent is an \<open>option\<close> field and the
  accessor supplies the default of the source. Python floats are modelled as real numbers:
  every comparison and every mean below is exact, rounding is not part of the model. The
  one claim that turns on rounding, the containment of close alerts in a single cluster, is
  stated over the copy of the loop on IEEE doubles that follows this section.

  \<open>created_at\<close> holds what
  \<^verbatim>\<open>datetime.fromisoformat(alert['created_at'].replace('Z', '+00:00'))\<close> evaluates to, and
  \<open>None\<close> when that expression raises (the key is missing or the text is not an ISO
  timestamp). A timestamp is its wall-clock reading in microseconds since the start of the
  proleptic calendar, and its UTC offset when it carries one.
\<close>

record datetime =
  wall :: int
  utcoffset :: "int option"

record alert =
  lat :: "real option"
  lon :: "real option"
  severity :: "int option"
  created_at :: "datetime option"

definition get_lat :: "alert \<Rightarrow> real" where
  "get_lat a = (case lat a of None \<Rightarrow> 0 | Some v \<Rightarrow> v)"

definition get_lon :: "alert \<Rightarrow> real" where
  "get_lon a = (case lon a of None \<Rightarrow> 0 | Some v \<Rightarrow> v)"

definition get_severity :: "alert \<Rightarrow> int" where
  "get_severity a = (case severity a of None \<Rightarrow> 1 | Some v \<Rightarrow> v)"

section \<open>Geographic clustering\<close>

text \<open>
  A cluster is the dictionary \<^verbatim>\<open>{'center': (lat, lon), 'alerts': [...], 'count': n}\<close>; the
  variant of \<^verbatim>\<open>recommendation_engine.py\<close> has no \<^verbatim>\<open>'count'\<close> key, so \<open>count\<close> lives in
  an extension of the record.
\<close>

record cluster =
  center :: "real \<times> real"
  alerts :: "alert list"

record counted_cluster = cluster +
  count :: nat

text \<open>\<^verbatim>\<open>((lat - cluster_lat)**2 + (lon - cluster_lon)**2)**0.5\<close>\<close>

definition distance :: "real \<Rightarrow> real \<Rightarrow> real \<times> real \<Rightarrow> real" where
  "distance la lo c = sqrt ((la - fst c)\<^sup>2 + (lo - snd c)\<^sup>2)"

text \<open>
  The inner loop \<^verbatim>\<open>for cluster in clusters: ... if distance < 0.01: found_cluster = cluster; break\<close>:
  the position of the first cluster whose centre is closer than 0.01.
\<close>

fun find_cluster :: "real \<Rightarrow> real \<Rightarrow> ('a cluster_scheme) list \<Rightarrow> nat option" where
  "find_cluster la lo [] = None"
| "find_cluster la lo (c # cs) =
     (if distance la lo (center c) < 0.01 then Some 0
      else map_option Suc (find_cluster la lo cs))"

text \<open>\<^verbatim>\<open>sum(a.get('lat', 0) for a in alerts_in_cluster) / len(alerts_in_cluster)\<close>\<close>

definition avg_lat :: "alert list \<Rightarrow> real" where
  "avg_lat as = sum_list (map get_lat as) / real (length as)"

definition avg_lon :: "alert list \<Rightarrow> real" where
  "avg_lon as = sum_list (map get_lon as) / real (length as)"

text \<open>
  The body of the outer loop and the loop. The four copies of the function differ only in
  what they do to the cluster they found (\<open>upd\<close>, which mutates that element of the list
  in place) and in the dictionary they append when none was found (\<open>mk\<close>).
\<close>

definition place_alert ::
  "(alert \<Rightarrow> 'a cluster_scheme \<Rightarrow> 'a cluster_scheme) \<Rightarrow> (alert \<Rightarrow> 'a cluster_scheme) \<Rightarrow>
   alert \<Rightarrow> ('a cluster_scheme) list \<Rightarrow> ('a cluster_scheme) list" where
  "place_alert upd mk a clusters =
     (case find_cluster (get_lat a) (get_lon a) clusters of
        Some i \<Rightarrow> clusters[i := upd a (clusters ! i)]
      | None \<Rightarrow> clusters @ [mk a])"

fun cluster_loop ::
  "(alert \<Rightarrow> 'a cluster_scheme \<Rightarrow> 'a cluster_scheme) \<Rightarrow> (alert \<Rightarrow> 'a cluster_scheme) \<Rightarrow>
   alert list \<Rightarrow> ('a cluster_scheme) list \<Rightarrow> ('a cluster_scheme) list" where
  "cluster_loop upd mk [] clusters = clusters"
| "cluster_loop upd mk (a # as) clusters = cluster_loop upd mk as (place_alert upd mk a clusters)"

definition new_cluster :: "alert \<Rightarrow> counted_cluster" where
  "new_cluster a = \<lparr>center = (get_lat a, get_lon a), alerts = [a], count = 1\<rparr>"

subsection \<open>\<^verbatim>\<open>mcp/app/main.py\<close>\<close>

text \<open>
  The alert is appended to the found cluster, its centre becomes the mean of the members and
  \<^verbatim>\<open>'count'\<close> their number; the result keeps the clusters whose \<^verbatim>\<open>'count'\<close> exceeds 1.
\<close>

definition absorb :: "alert \<Rightarrow> counted_cluster \<Rightarrow> counted_cluster" where
  "absorb a c =
     (let alerts_in_cluster = alerts c @ [a]
      in c\<lparr>alerts := alerts_in_cluster,
           center := (avg_lat alerts_in_cluster, avg_lon alerts_in_cluster),
           count := length alerts_in_cluster\<rparr>)"

definition internal_clusters :: "alert list \<Rightarrow> counted_cluster list" where
  "internal_clusters alerts_data = cluster_loop absorb new_cluster alerts_data []"

definition analyze_location_clusters :: "alert list \<Rightarrow> counted_cluster list" where
  "analyze_location_clusters alerts_data =
     filter (\<lambda>c. count c > 1) (internal_clusters alerts_data)"

subsection \<open>\<^verbatim>\<open>mcp/app/advanced_mcp.py\<close> and \<^verbatim>\<open>mcp/app/decision_support.py\<close>\<close>

text \<open>
  Both recompute the centre and leave \<^verbatim>\<open>'count'\<close> at 1; the result keeps the clusters with
  more than one member. \<^verbatim>\<open>advanced_mcp.py\<close> returns early on an empty snapshot.
\<close>

definition absorb_stale :: "alert \<Rightarrow> counted_cluster \<Rightarrow> counted_cluster" where
  "absorb_stale a c =
     (let alerts_in_cluster = alerts c @ [a]
      in c\<lparr>alerts := alerts_in_cluster,
           center := (avg_lat alerts_in_cluster, avg_lon alerts_in_cluster)\<rparr>)"

definition internal_clusters_advanced :: "alert list \<Rightarrow> counted_cluster list" where
  "internal_clusters_advanced alerts_data = cluster_loop absorb_stale new_cluster alerts_data []"

definition analyze_location_clusters_advanced :: "alert list \<Rightarrow> counted_cluster list" where
  "analyze_location_clusters_advanced alerts_data =
     (if alerts_data = [] then []
      else filter (\<lambda>c. length (alerts c) > 1) (internal_clusters_advanced alerts_data))"



subsection \<open>\<^verbatim>\<open>mcp/app/recommendation_engine.py\<close>\<close>

text \<open>
  The simplified copy appends the alert to the found cluster and leaves its centre where
  the first member put it.
\<close>

definition absorb_engine :: "alert \<Rightarrow> cluster \<Rightarrow> cluster" where
  "absorb_engine a c = c\<lparr>alerts := alerts c @ [a]\<rparr>"

definition new_cluster_engine :: "alert \<Rightarrow> cluster" where
  "new_cluster_engine a = \<lparr>center = (get_lat a, get_lon a), alerts = [a]\<rparr>"

definition internal_clusters_engine :: "alert list \<Rightarrow> cluster list" where
  "internal_clusters_engine alerts_data =
     cluster_loop absorb_engine new_cluster_engine alerts_data []"

definition analyze_location_clusters_engine :: "alert list \<Rightarrow> cluster list" where
  "analyze_location_clusters_engine alerts_data =
     filter (\<lambda>c. length (alerts c) > 1) (internal_clusters_engine alerts_data)"

subsection \<open>What the clustering claims speak about\<close>


text \<open>
  Member lists are compared with the input by position, so that two alerts with equal
  fields at different positions of the snapshot stay two alerts: \<open>nths xs A\<close> is the sublist
  of \<open>xs\<close> at the positions in \<open>A\<close>. The member lists \<open>ms\<close> assign every alert of \<open>xs\<close>
  exactly once when they are the sublists at pairwise disjoint position sets that
  together cover all positions.
\<close>

fun pairwise_disjoint :: "nat set list \<Rightarrow> bool" where
  "pairwise_disjoint [] = True"
| "pairwise_disjoint (A # As) = ((\<forall>B\<in>set As. A \<inter> B = {}) \<and> pairwise_disjoint As)"

definition disjoint_sublists :: "'x list \<Rightarrow> 'x list list \<Rightarrow> bool" where
  "disjoint_sublists xs ms \<longleftrightarrow> (\<exists>Is. ms = map (nths xs) Is \<and> pairwise_disjoint Is)"

definition assigns_each_once :: "'x list \<Rightarrow> 'x list list \<Rightarrow> bool" where
  "assigns_each_once xs ms \<longleftrightarrow>
     (\<exists>Is. ms = map (nths xs) Is \<and> pairwise_disjoint Is \<and> \<Union>(set Is) = {..<length xs})"

definition partitions ::
  "alert list \<Rightarrow> ('a cluster_scheme) list \<Rightarrow> ('a cluster_scheme) list \<Rightarrow> bool" where
  "partitions xs internal returned \<longleftrightarrow>
     assigns_each_once xs (map alerts internal) \<and>
     mset (concat (map alerts internal)) = mset xs \<and>
     sum_list (map (\<lambda>c. length (alerts c)) internal) = length xs \<and>
     returned = filter (\<lambda>c. 2 \<le> length (alerts c)) internal \<and>
     disjoint_sublists xs (map alerts returned)"

text \<open>Two alerts about 110 m apart in Guatemala City, and one far from both.\<close>

definition alert_a :: alert where
  "alert_a = \<lparr>lat = Some 14.625, lon = Some (-90.525), severity = Some 3,
     created_at = None\<rparr>"

definition alert_b :: alert where
  "alert_b = \<lparr>lat = Some 14.626, lon = Some (-90.525), severity = Some 1,
     created_at = None\<rparr>"

definition alert_far :: alert where
  "alert_far = \<lparr>lat = Some 15, lon = Some (-90.525), severity = Some 2,
     created_at = None\<rparr>"

section \<open>The clustering on IEEE doubles\<close>

text \<open>
  Whether an alert joins a cluster is decided by a comparison with 0.01 of a distance to a
  rounded mean, so the containment claim needs the arithmetic of the program. Python's
  floats are IEEE 754 doubles: 53 significant bits, every operation rounded to the nearest
  double, ties to the even one. A double is modelled as the real number it denotes and an
  operation as the rounding of the exact result. The exponent range is not modelled (no
  overflow, no subnormal numbers), \<^verbatim>\<open>x ** 2\<close> and \<^verbatim>\<open>x ** 0.5\<close> are taken as the correctly
  rounded square and square root, and \<^verbatim>\<open>sum\<close> adds from left to right.
\<close>

definition round_even :: "real \<Rightarrow> int" where
  "round_even y =
     (let f = \<lfloor>y\<rfloor>
      in if y - of_int f < 1/2 then f
         else if y - of_int f > 1/2 then f + 1
         else if even f then f else f + 1)"

definition rnd :: "real \<Rightarrow> real" where
  "rnd x =
     (if x = 0 then 0
      else let u = 2 powr (of_int \<lfloor>log 2 \<bar>x\<bar>\<rfloor> - 52)
           in of_int (round_even (x / u)) * u)"

definition fadd :: "real \<Rightarrow> real \<Rightarrow> real" where
  "fadd x y = rnd (x + y)"

definition fsub :: "real \<Rightarrow> real \<Rightarrow> real" where
  "fsub x y = rnd (x - y)"

definition fdiv :: "real \<Rightarrow> real \<Rightarrow> real" where
  "fdiv x y = rnd (x / y)"

text \<open>\<^verbatim>\<open>x ** 2\<close> and \<^verbatim>\<open>x ** 0.5\<close>\<close>

definition fsquare :: "real \<Rightarrow> real" where
  "fsquare x = rnd (x * x)"

definition froot :: "real \<Rightarrow> real" where
  "froot x = rnd (sqrt x)"

text \<open>\<^verbatim>\<open>sum(...)\<close>, which starts from the integer 0.\<close>

definition fsum :: "real list \<Rightarrow> real" where
  "fsum xs = foldl fadd 0 xs"

text \<open>The literal \<^verbatim>\<open>0.01\<close> is the double nearest to one hundredth.\<close>

definition radius64 :: real where
  "radius64 = rnd (1 / 100)"

text \<open>\<^verbatim>\<open>((lat - cluster_lat)**2 + (lon - cluster_lon)**2)**0.5\<close>\<close>

definition distance64 :: "real \<Rightarrow> real \<Rightarrow> real \<times> real \<Rightarrow> real" where
  "distance64 la lo c = froot (fadd (fsquare (fsub la (fst c))) (fsquare (fsub lo (snd c))))"

text \<open>\<^verbatim>\<open>sum(a.get('lat', 0) for a in alerts_in_cluster) / len(alerts_in_cluster)\<close>\<close>

definition avg_lat64 :: "alert list \<Rightarrow> real" where
  "avg_lat64 as = fdiv (fsum (map get_lat as)) (real (length as))"

definition avg_lon64 :: "alert list \<Rightarrow> real" where
  "avg_lon64 as = fdiv (fsum (map get_lon as)) (real (length as))"











text \<open>
  The centre the loop holds for a cluster with the members \<open>as\<close>: the position of a single
  member, the rounded mean of several. A snapshot follows its centre when every alert
  after the first is closer than the radius to the centre of the alerts before it.
\<close>

definition running_centre :: "alert list \<Rightarrow> real \<times> real" where
  "running_centre as =
     (if length as = 1 then (get_lat (hd as), get_lon (hd as))
      else (avg_lat64 as, avg_lon64 as))"

definition follows_centre :: "alert list \<Rightarrow> bool" where
  "follows_centre xs \<longleftrightarrow>
     (\<forall>k. 0 < k \<and> k < length xs \<longrightarrow>
        distance64 (get_lat (xs ! k)) (get_lon (xs ! k)) (running_centre (take k xs)) < radius64)"

text \<open>
  Two places 0.01 degrees of latitude apart, with the coordinates 14.008, 13.998 and
  -90.525 as the doubles nearest to them, and the mean the program computes for three
  alerts at the first place.
\<close>

definition lat_p :: real where "lat_p = 7885802947525738 / 2 ^ 49"

definition lat_q :: real where "lat_q = 7880173447991525 / 2 ^ 49"

definition lon_p :: real where "lon_p = - 6370130566683034 / 2 ^ 46"



definition alert_p :: alert where
  "alert_p = \<lparr>lat = Some lat_p, lon = Some lon_p, severity = Some 2, created_at = None\<rparr>"

definition alert_q :: alert where
  "alert_q = \<lparr>lat = Some lat_q, lon = Some lon_p, severity = Some 2, created_at = None\<rparr>"

section \<open>Temporal trends\<close>

text \<open>
  The result dictionary \<^verbatim>\<open>{"trend": ..., "increasing": ..., "recent_counts": ...}\<close>. The
  last key is \<^verbatim>\<open>"last_7_days"\<close> in \<^verbatim>\<open>advanced_mcp.py\<close>, and the early returns leave it out;
  the \<^verbatim>\<open>"stable"\<close> result of \<^verbatim>\<open>recommendation_engine.py\<close> has no \<^verbatim>\<open>"increasing"\<close> key, which
  \<^verbatim>\<open>trends.get('increasing')\<close> reads as \<^verbatim>\<open>None\<close>.
\<close>

record trend_result =
  trend :: string
  increasing :: "bool option"
  recent_counts :: "nat list option"

text \<open>\<^verbatim>\<open>.date()\<close>: the calendar day of the wall-clock reading, as a day number.\<close>

definition date :: "datetime \<Rightarrow> int" where
  "date t = wall t div 86400000000"

text \<open>
  \<^verbatim>\<open>daily_count[date] = daily_count.get(date, 0) + 1\<close> on a dictionary kept as the list
  of its items in insertion order.
\<close>

fun bump :: "int \<Rightarrow> (int \<times> nat) list \<Rightarrow> (int \<times> nat) list" where
  "bump d [] = [(d, 1)]"
| "bump d ((k, n) # items) = (if k = d then (k, n + 1) # items else (k, n) # bump d items)"

text \<open>\<^verbatim>\<open>daily_count[date]\<close> for a key of the dictionary.\<close>

definition lookup :: "(int \<times> nat) list \<Rightarrow> int \<Rightarrow> nat" where
  "lookup items k = (case map_of items k of Some n \<Rightarrow> n | None \<Rightarrow> 0)"

subsection \<open>\<^verbatim>\<open>mcp/app/main.py\<close>\<close>

text \<open>The counting loop skips an alert whose timestamp cannot be read (\<^verbatim>\<open>except: continue\<close>).\<close>

fun count_days :: "alert list \<Rightarrow> (int \<times> nat) list \<Rightarrow> (int \<times> nat) list" where
  "count_days [] daily_count = daily_count"
| "count_days (a # as) daily_count =
     (case created_at a of
        None \<Rightarrow> count_days as daily_count
      | Some t \<Rightarrow> count_days as (bump (date t) daily_count))"

definition analyze_trends :: "alert list \<Rightarrow> trend_result" where
  "analyze_trends alerts_data =
     (if alerts_data = [] then
        \<lparr>trend = ''stable'', increasing = Some False, recent_counts = None\<rparr>
      else
        let daily_count = count_days alerts_data [];
            recent_dates = last_n 3 (sort (map fst daily_count))
        in if length recent_dates < 2 then
             \<lparr>trend = ''insufficient_data'', increasing = Some False, recent_counts = None\<rparr>
           else
             let counts = map (lookup daily_count) recent_dates;
                 t = (if last counts > hd counts then ''increasing'' else ''decreasing'')
             in \<lparr>trend = t, increasing = Some (t = ''increasing''),
                  recent_counts = Some counts\<rparr>)"

subsection \<open>\<^verbatim>\<open>mcp/app/advanced_mcp.py\<close>\<close>

text \<open>No handler around the parsing: the first unreadable timestamp ends the call.\<close>

fun count_days_strict :: "alert list \<Rightarrow> (int \<times> nat) list \<Rightarrow> exn + (int \<times> nat) list" where
  "count_days_strict [] daily_count = Inr daily_count"
| "count_days_strict (a # as) daily_count =
     (case created_at a of
        None \<Rightarrow> Inl TimestampError
      | Some t \<Rightarrow> count_days_strict as (bump (date t) daily_count))"

definition analyze_trends_advanced :: "alert list \<Rightarrow> exn + trend_result" where
  "analyze_trends_advanced alerts_data =
     (if alerts_data = [] then
        Inr \<lparr>trend = ''stable'', increasing = Some False, recent_counts = None\<rparr>
      else
        case count_days_strict alerts_data [] of
          Inl e \<Rightarrow> Inl e
        | Inr daily_count \<Rightarrow>
            let recent_dates = last_n 7 (sort (map fst daily_count))
            in if length recent_dates < 2 then
                 Inr \<lparr>trend = ''insufficient_data'', increasing = Some False,
                      recent_counts = None\<rparr>
               else
                 let counts = map (lookup daily_count) recent_dates;
                     t = (if last counts > hd counts then ''increasing'' else ''decreasing'')
                 in Inr \<lparr>trend = t, increasing = Some (t = ''increasing''),
                          recent_counts = Some counts\<rparr>)"

subsection \<open>\<^verbatim>\<open>mcp/app/recommendation_engine.py\<close>\<close>

text \<open>
  The simplified copy compares the share of alerts of the last 24 hours with 0.3.
  \<open>now\<close> is the wall-clock reading of \<^verbatim>\<open>datetime.utcnow()\<close>, which has no offset: comparing
  it with a timestamp that has one is a \<^verbatim>\<open>TypeError\<close>.
\<close>

fun recent_alerts :: "int \<Rightarrow> alert list \<Rightarrow> exn + alert list" where
  "recent_alerts now [] = Inr []"
| "recent_alerts now (a # as) =
     (case created_at a of
        None \<Rightarrow> Inl TimestampError
      | Some t \<Rightarrow>
          (case utcoffset t of
             Some off \<Rightarrow> Inl TypeError
           | None \<Rightarrow>
               (case recent_alerts now as of
                  Inl e \<Rightarrow> Inl e
                | Inr recent \<Rightarrow> Inr (if wall t > now - 24 * 3600000000 then a # recent else recent))))"

definition analyze_trends_engine :: "int \<Rightarrow> alert list \<Rightarrow> exn + trend_result" where
  "analyze_trends_engine now alerts_data =
     (if length alerts_data < 2 then
        Inr \<lparr>trend = ''stable'', increasing = None, recent_counts = None\<rparr>
      else
        case recent_alerts now alerts_data of
          Inl e \<Rightarrow> Inl e
        | Inr recent \<Rightarrow>
            let more = real (length recent) > real (length alerts_data) * 0.3
            in Inr \<lparr>trend = (if more then ''increasing'' else ''stable''),
                     increasing = Some more, recent_counts = None\<rparr>)"

text \<open>\<^verbatim>\<open>if trends.get('increasing'):\<close>\<close>

definition is_increasing :: "trend_result \<Rightarrow> bool" where
  "is_increasing t = (increasing t = Some True)"

text \<open>The calendar days on which the alerts of a snapshot were created.\<close>

definition creation_dates :: "alert list \<Rightarrow> int set" where
  "creation_dates alerts_data = date ` (\<Union>a\<in>set alerts_data. set_option (created_at a))"

section \<open>Recommendations by role\<close>

text \<open>
  A recommendation is the dictionary \<^verbatim>\<open>{"type", "title", "description", "actions"}\<close>, a
  response the list of recommendations with a priority and a validity period. The
  requester's location is an optional dictionary from names to numbers, kept as the list
  of its items; \<^verbatim>\<open>if not location\<close> holds for \<^verbatim>\<open>None\<close> and for the empty dictionary.
\<close>

record recommendation =
  type :: string
  title :: string
  description :: string
  actions :: "string list"

record RecommendationResponse =
  recommendations :: "recommendation list"
  priority :: string
  validity_period :: string




text \<open>\<^verbatim>\<open>[a for a in alerts if a.get('severity', 1) >= 3]\<close>\<close>

definition high_severity :: "alert list \<Rightarrow> alert list" where
  "high_severity alerts_data = filter (\<lambda>a. get_severity a \<ge> 3) alerts_data"

subsection \<open>\<^verbatim>\<open>mcp/app/main.py\<close>\<close>









subsection \<open>\<^verbatim>\<open>mcp/app/recommendation_engine.py\<close>\<close>














section \<open>Risk scoring\<close>

text \<open>
  Risk levels are strings in the source, English in \<^verbatim>\<open>main.py\<close> and Spanish in
  \<^verbatim>\<open>advanced_mcp.py\<close>; \<open>level_of\<close> reads both as the four levels of the specification, which
  are ordered by \<open>rank\<close>.
\<close>

datatype level = LOW | MEDIUM | HIGH | CRITICAL

definition level_of :: "string \<Rightarrow> level option" where
  "level_of s =
     (if s = ''LOW'' \<or> s = ''BAJO'' then Some LOW
      else if s = ''MEDIUM'' \<or> s = ''MEDIO'' then Some MEDIUM
      else if s = ''HIGH'' \<or> s = ''ALTO'' then Some HIGH
      else if s = ''CRITICAL'' \<or> s = (''CR'' @ [CHR 0xCD] @ ''TICO'') then Some CRITICAL
      else None)"

fun rank :: "level \<Rightarrow> nat" where
  "rank LOW = 0"
| "rank MEDIUM = 1"
| "rank HIGH = 2"
| "rank CRITICAL = 3"

definition level_le :: "string \<Rightarrow> string \<Rightarrow> bool" where
  "level_le s t = (case (level_of s, level_of t) of
                     (Some l, Some m) \<Rightarrow> rank l \<le> rank m
                   | _ \<Rightarrow> False)"

record RiskAssessment =
  risk_level :: string
  confidence :: real
  factors :: "string list"
  recommendations :: "string list"

subsection \<open>\<^verbatim>\<open>risk_assessment\<close> of \<^verbatim>\<open>mcp/app/main.py\<close>\<close>

text \<open>
  The factors and the recommendations grow together; what is scored is the number of
  factors and the number of alerts of severity 3 or more.
\<close>

definition factor_high :: "alert list \<Rightarrow> (string \<times> string) list" where
  "factor_high alerts_data =
     (if high_severity alerts_data \<noteq> [] then
        [(str_nat (length (high_severity alerts_data)) @ '' alertas de alta severidad activas'', ''Monitorear continuamente alertas cr'' @ [CHR 0xED] @ ''ticas'')]
      else [])"

definition factor_clusters :: "alert list \<Rightarrow> (string \<times> string) list" where
  "factor_clusters alerts_data =
     (let clusters = analyze_location_clusters alerts_data
      in if clusters \<noteq> [] then
           [(''Concentraci'' @ [CHR 0xF3] @ ''n en '' @ str_nat (length clusters) @ '' zonas de riesgo'', ''Optimizar recursos en zonas cr'' @ [CHR 0xED] @ ''ticas'')]
         else [])"

definition factor_trend :: "alert list \<Rightarrow> (string \<times> string) list" where
  "factor_trend alerts_data =
     (if is_increasing (analyze_trends alerts_data) then [(''Tendencia creciente en n'' @ [CHR 0xFA] @ ''mero de alertas'', ''Preparar capacidad de respuesta adicional'')] else [])"

text \<open>\<^verbatim>\<open>len(risk_factors) * 0.5 + len(high_severity) * 0.3\<close> and the thresholds on it.\<close>

definition risk_score :: "nat \<Rightarrow> nat \<Rightarrow> real" where
  "risk_score n_factors n_high = real n_factors * 0.5 + real n_high * 0.3"

definition grade :: "real \<Rightarrow> string" where
  "grade score = (if score \<ge> 2 then ''HIGH'' else if score \<ge> 1 then ''MEDIUM'' else ''LOW'')"

definition risk_assessment :: "alert list reply \<Rightarrow> RiskAssessment" where
  "risk_assessment alerts_response =
     (case alerts_response of
        Raised e \<Rightarrow>
          \<lparr>risk_level = ''UNKNOWN'', confidence = 0,
           factors = [''Error: '' @ e], recommendations = [''Revisar conectividad con backend'']\<rparr>
      | Reply status_code body \<Rightarrow>
          let alerts_data = (if status_code = 200 then body else []);
              found = factor_high alerts_data @ factor_clusters alerts_data @
                      factor_trend alerts_data;
              risk_factors = map fst found;
              score = risk_score (length risk_factors) (length (high_severity alerts_data))
          in \<lparr>risk_level = grade score,
              confidence = min (score / 3.0) 1.0,
              factors = risk_factors,
              recommendations = map snd found\<rparr>)"

subsection \<open>\<^verbatim>\<open>risk_assessment\<close> of \<^verbatim>\<open>mcp/app/advanced_mcp.py\<close>\<close>

text \<open>
  Four factors, Spanish level names, and no handler: a failed call and an unreadable
  timestamp both end the request. The body of the external reply is the list under its
  \<^verbatim>\<open>'alerts'\<close> key, empty when the key is missing.
\<close>

definition factor_high_advanced :: "alert list \<Rightarrow> (string \<times> string) list" where
  "factor_high_advanced alerts_data =
     (if high_severity alerts_data \<noteq> [] then
        [(str_nat (length (high_severity alerts_data)) @ '' alertas de alta severidad activas'', ''Monitorear continuamente las alertas de alta severidad'')]
      else [])"

definition factor_clusters_advanced :: "alert list \<Rightarrow> (string \<times> string) list" where
  "factor_clusters_advanced alerts_data =
     (let location_clusters = analyze_location_clusters_advanced alerts_data
      in if location_clusters \<noteq> [] then
           [(''Concentraci'' @ [CHR 0xF3] @ ''n de alertas en '' @ str_nat (length location_clusters) @ '' zonas'', ''Evaluar recursos en zonas de alta concentraci'' @ [CHR 0xF3] @ ''n'')]
         else [])"

definition factor_external :: "'e list \<Rightarrow> (string \<times> string) list" where
  "factor_external external_alerts =
     (if external_alerts \<noteq> [] then
        [(str_nat (length external_alerts) @ '' alertas externas detectadas'', ''Integrar alertas externas al sistema de monitoreo'')]
      else [])"

definition grade_advanced :: "real \<Rightarrow> string" where
  "grade_advanced score =
     (if score \<ge> 2 then ''ALTO'' else if score \<ge> 1 then ''MEDIO'' else ''BAJO'')"

definition risk_assessment_advanced ::
  "alert list reply \<Rightarrow> 'e list reply \<Rightarrow> exn + RiskAssessment" where
  "risk_assessment_advanced alerts_response external_response =
     (case alerts_response of
        Raised e \<Rightarrow> Inl (RequestException e)
      | Reply alerts_status alerts_body \<Rightarrow>
          (case external_response of
             Raised e \<Rightarrow> Inl (RequestException e)
           | Reply external_status external_body \<Rightarrow>
               let alerts_data = (if alerts_status = 200 then alerts_body else []);
                   external_alerts = (if external_status = 200 then external_body else [])
               in case analyze_trends_advanced alerts_data of
                    Inl e \<Rightarrow> Inl e
                  | Inr t \<Rightarrow>
                      let found = factor_high_advanced alerts_data @
                                  factor_clusters_advanced alerts_data @
                                  factor_external external_alerts @
                                  (if is_increasing t then [(''Tendencia creciente en n'' @ [CHR 0xFA] @ ''mero de alertas'', ''Aumentar capacidad de respuesta'')] else []);
                          risk_factors = map fst found;
                          score = risk_score (length risk_factors)
                                    (length (high_severity alerts_data))
                      in Inr \<lparr>risk_level = grade_advanced score,
                                confidence = min (score / 3.0) 1.0,
                                factors = risk_factors,
                                recommendations = map snd found\<rparr>))"

subsection \<open>\<^verbatim>\<open>calculate_risk_level\<close>\<close>

text \<open>
  \<^verbatim>\<open>(high_severity_count * 0.6) + (recent_count * 0.4)\<close>, the score of both copies.
\<close>

definition dashboard_score :: "nat \<Rightarrow> nat \<Rightarrow> real" where
  "dashboard_score high_severity_count recent_count =
     real high_severity_count * 0.6 + real recent_count * 0.4"

text \<open>\<^verbatim>\<open>main.py\<close>: from the number of severe alerts and the number of recent ones.\<close>

definition calculate_risk_level :: "nat \<Rightarrow> nat \<Rightarrow> string" where
  "calculate_risk_level high_severity_count recent_count =
     (let score = dashboard_score high_severity_count recent_count
      in if score > 5 then ''CRITICAL''
         else if score > 3 then ''HIGH''
         else if score > 1 then ''MEDIUM''
         else ''LOW'')"

text \<open>
  \<^verbatim>\<open>advanced_mcp.py\<close>: from the histogram of severities, a dictionary kept as the list of
  its items, of which it reads the keys 3 and 4.
\<close>

definition calculate_risk_level_advanced :: "(int \<times> nat) list \<Rightarrow> nat \<Rightarrow> string" where
  "calculate_risk_level_advanced severity_count recent_count =
     (let total_alerts = sum_list (map snd severity_count)
      in if total_alerts = 0 then ''BAJO''
         else
           let high = lookup severity_count 3 + lookup severity_count 4;
               score = dashboard_score high recent_count
           in if score > 5 then (''CR'' @ [CHR 0xCD] @ ''TICO'')
              else if score > 3 then ''ALTO''
              else if score > 1 then ''MEDIO''
              else ''BAJO'')"

text \<open>
  Two snapshots that differ at most in the severities of their alerts: positions, times
  and number of alerts are the same.
\<close>

definition blank :: "alert \<Rightarrow> alert" where
  "blank a = a\<lparr>severity := None\<rparr>"

definition same_but_severity :: "alert list \<Rightarrow> alert list \<Rightarrow> bool" where
  "same_but_severity xs ys \<longleftrightarrow> map blank xs = map blank ys"

definition blank_cluster :: "counted_cluster \<Rightarrow> counted_cluster" where
  "blank_cluster c = c\<lparr>alerts := map blank (alerts c)\<rparr>"

text \<open>
  Example alerts with timestamps: two on day 738000 of the calendar, an hour after midnight,
  of severities 2 and 3, and one on the next day.
\<close>

definition alert_mon :: alert where
  "alert_mon = \<lparr>lat = Some 14.625, lon = Some (-90.525), severity = Some 2,
     created_at = Some \<lparr>wall = 63763203600000000, utcoffset = None\<rparr>\<rparr>"

definition alert_mon_severe :: alert where
  "alert_mon_severe = \<lparr>lat = Some 14.625, lon = Some (-90.525), severity = Some 3,
     created_at = Some \<lparr>wall = 63763203600000000, utcoffset = None\<rparr>\<rparr>"

definition alert_tue :: alert where
  "alert_tue = \<lparr>lat = Some 14.7, lon = Some (-90.525), severity = Some 1,
     created_at = Some \<lparr>wall = 63763290000000000, utcoffset = None\<rparr>\<rparr>"

section \<open>Properties of the clustering\<close>

subsection \<open>Distances\<close>

text \<open>The comparison of a distance with 0.01 is a comparison of squares.\<close>

lemma distance_lt_iff:
  "distance la lo c < 0.01 \<longleftrightarrow> (la - fst c)\<^sup>2 + (lo - snd c)\<^sup>2 < 0.0001"
proof -
  have "sqrt (0.0001::real) = 0.01"
    by (rule real_sqrt_unique) (simp_all add: power2_eq_square)
  then show ?thesis
    unfolding distance_def by (metis real_sqrt_less_iff)
qed

lemma distance_lt_eval:
  "distance la lo c * 100 < 1 \<longleftrightarrow> ((la - fst c)\<^sup>2 + (lo - snd c)\<^sup>2) * 10000 < 1"
  using distance_lt_iff [of la lo c] by simp

subsection \<open>Invariants of the loop\<close>

lemma find_cluster_less: "find_cluster la lo cs = Some i \<Longrightarrow> i < length cs"
  by (induction cs arbitrary: i) (auto split: if_splits)




subsection \<open>Every alert lands in exactly one cluster\<close>

lemma pairwise_disjoint_nth:
  "pairwise_disjoint Is \<longleftrightarrow> (\<forall>j<length Is. \<forall>k<length Is. j \<noteq> k \<longrightarrow> Is ! j \<inter> Is ! k = {})"
proof (induction Is)
  case Nil
  then show ?case by simp
next
  case (Cons A As)
  show ?case
  proof
    assume l: "pairwise_disjoint (A # As)"
    then have a: "\<forall>B\<in>set As. A \<inter> B = {}" and r: "pairwise_disjoint As" by simp_all
    show "\<forall>j<length (A # As). \<forall>k<length (A # As). j \<noteq> k \<longrightarrow> (A # As) ! j \<inter> (A # As) ! k = {}"
    proof (intro allI impI)
      fix j k assume j: "j < length (A # As)" and k: "k < length (A # As)" and jk: "j \<noteq> k"
      show "(A # As) ! j \<inter> (A # As) ! k = {}"
      proof (cases j)
        case 0
        with jk obtain k' where "k = Suc k'" by (cases k) auto
        with 0 k a show ?thesis by simp
      next
        case (Suc j')
        show ?thesis
        proof (cases k)
          case 0
          with Suc j a show ?thesis by (auto simp: Int_commute)
        next
          case (Suc k')
          with \<open>j = Suc j'\<close> j k jk r Cons.IH show ?thesis by simp
        qed
      qed
    qed
  next
    assume r: "\<forall>j<length (A # As). \<forall>k<length (A # As). j \<noteq> k \<longrightarrow> (A # As) ! j \<inter> (A # As) ! k = {}"
    have "\<forall>B\<in>set As. A \<inter> B = {}"
    proof
      fix B assume "B \<in> set As"
      then obtain k where "k < length As" "As ! k = B" by (auto simp: in_set_conv_nth)
      with r [rule_format, of 0 "Suc k"] show "A \<inter> B = {}" by simp
    qed
    moreover have "\<forall>j<length As. \<forall>k<length As. j \<noteq> k \<longrightarrow> As ! j \<inter> As ! k = {}"
    proof (intro allI impI)
      fix j k assume "j < length As" "k < length As" "j \<noteq> k"
      with r [rule_format, of "Suc j" "Suc k"] show "As ! j \<inter> As ! k = {}" by simp
    qed
    ultimately show "pairwise_disjoint (A # As)" using Cons.IH by simp
  qed
qed

lemma pairwise_disjoint_filter: "pairwise_disjoint Is \<Longrightarrow> pairwise_disjoint (filter P Is)"
  by (induction Is) auto

lemma nths_beyond: "\<forall>i\<in>A. length xs \<le> i \<Longrightarrow> nths xs A = []"
  by (auto simp: set_nths simp flip: set_empty)

lemma nths_snoc_out: "length xs \<notin> A \<Longrightarrow> nths (xs @ [a]) A = nths xs A"
  by (simp add: nths_append nths_singleton)

lemma nths_snoc_in: "nths (xs @ [a]) (insert (length xs) A) = nths xs A @ [a]"
proof -
  have "nths xs (insert (length xs) A) = nths xs A"
    unfolding nths_def by (rule arg_cong [where f = "map fst"], rule filter_cong) (auto dest: set_zip_rightD)
  then show ?thesis by (simp add: nths_append nths_singleton)
qed

lemma assigns_new:
  assumes "assigns_each_once xs ms"
  shows "assigns_each_once (xs @ [a]) (ms @ [[a]])"
proof -
  from assms obtain Is where ms: "ms = map (nths xs) Is" and pd: "pairwise_disjoint Is"
    and un: "\<Union>(set Is) = {..<length xs}" by (auto simp: assigns_each_once_def)
  let ?Is = "Is @ [{length xs}]"
  have out: "\<forall>A\<in>set Is. length xs \<notin> A" using un by auto
  have "nths (xs @ [a]) {length xs} = [a]"
    using nths_snoc_in [of xs a "{}"] by simp
  then have "ms @ [[a]] = map (nths (xs @ [a])) ?Is"
    using out by (simp add: ms nths_snoc_out)
  moreover have "pairwise_disjoint ?Is"
    using pd out by (induction Is) auto
  moreover have "\<Union>(set ?Is) = {..<length (xs @ [a])}"
    using un by (auto simp: less_Suc_eq)
  ultimately show ?thesis unfolding assigns_each_once_def by blast
qed

lemma assigns_upd:
  assumes "assigns_each_once xs ms" and i: "i < length ms"
  shows "assigns_each_once (xs @ [a]) (ms[i := ms ! i @ [a]])"
proof -
  from assms obtain Is where ms: "ms = map (nths xs) Is" and pd: "pairwise_disjoint Is"
    and un: "\<Union>(set Is) = {..<length xs}" by (auto simp: assigns_each_once_def)
  from i ms have iI: "i < length Is" by simp
  let ?Is = "Is[i := Is ! i \<union> {length xs}]"
  have out: "\<forall>A\<in>set Is. length xs \<notin> A" using un by auto
  have "ms[i := ms ! i @ [a]] = map (nths (xs @ [a])) ?Is"
  proof (rule nth_equalityI)
    show "length (ms[i := ms ! i @ [a]]) = length (map (nths (xs @ [a])) ?Is)"
      by (simp add: ms)
  next
    fix j assume "j < length (ms[i := ms ! i @ [a]])"
    then have j: "j < length Is" by (simp add: ms)
    show "ms[i := ms ! i @ [a]] ! j = map (nths (xs @ [a])) ?Is ! j"
    proof (cases "j = i")
      case True
      then show ?thesis using iI by (simp add: ms nths_snoc_in)
    next
      case False
      moreover from j out have "length xs \<notin> Is ! j" by simp
      ultimately show ?thesis using j by (simp add: ms nths_snoc_out)
    qed
  qed
  moreover have "pairwise_disjoint ?Is"
    unfolding pairwise_disjoint_nth
  proof (intro allI impI)
    fix j k assume j: "j < length ?Is" and k: "k < length ?Is" and jk: "j \<noteq> k"
    then have "Is ! j \<inter> Is ! k = {}" using pd by (simp add: pairwise_disjoint_nth)
    moreover have "length xs \<notin> Is ! j" "length xs \<notin> Is ! k" using j k out by simp_all
    ultimately show "?Is ! j \<inter> ?Is ! k = {}" using j k jk
      by (cases "j = i"; cases "k = i") (auto simp: nth_list_update)
  qed
  moreover have "\<Union>(set ?Is) = {..<length (xs @ [a])}"
  proof -
    have "\<Union>(set ?Is) = \<Union>(set Is) \<union> {length xs}"
    proof
      show "\<Union>(set ?Is) \<subseteq> \<Union>(set Is) \<union> {length xs}"
        using iI by (auto dest!: subsetD [OF set_update_subset_insert])
      show "\<Union>(set Is) \<union> {length xs} \<subseteq> \<Union>(set ?Is)"
      proof
        fix n assume "n \<in> \<Union>(set Is) \<union> {length xs}"
        then consider j where "j < length Is" "n \<in> Is ! j" | "n = length xs"
          by (auto simp: in_set_conv_nth)
        then show "n \<in> \<Union>(set ?Is)"
        proof cases
          case 1
          then have "n \<in> ?Is ! j" by (cases "j = i") (simp_all add: nth_list_update)
          moreover have "?Is ! j \<in> set ?Is" using 1 by (simp add: nth_mem del: nth_list_update)
          ultimately show ?thesis by blast
        next
          case 2
          then have "n \<in> ?Is ! i" using iI by simp
          moreover have "?Is ! i \<in> set ?Is" using iI by (simp add: nth_mem del: nth_list_update nth_list_update_eq)
          ultimately show ?thesis by blast
        qed
      qed
    qed
    then show ?thesis using un by (auto simp: less_Suc_eq)
  qed
  ultimately show ?thesis unfolding assigns_each_once_def by blast
qed

lemma place_alert_members:
  assumes upd: "\<And>a c. alerts (upd a c) = alerts c @ [a]" and mk: "\<And>a. alerts (mk a) = [a]"
  shows "map alerts (place_alert upd mk a cs) =
    (case find_cluster (get_lat a) (get_lon a) cs of
       Some i \<Rightarrow> (map alerts cs)[i := map alerts cs ! i @ [a]]
     | None \<Rightarrow> map alerts cs @ [[a]])"
  by (auto simp: place_alert_def map_update upd mk dest: find_cluster_less split: option.split)

lemma place_alert_assigns:
  assumes upd: "\<And>a c. alerts (upd a c) = alerts c @ [a]" and mk: "\<And>a. alerts (mk a) = [a]"
    and inv: "assigns_each_once xs (map alerts cs)"
  shows "assigns_each_once (xs @ [a]) (map alerts (place_alert upd mk a cs))"
proof (cases "find_cluster (get_lat a) (get_lon a) cs")
  case None
  then show ?thesis using assigns_new [OF inv] by (simp add: place_alert_members [OF upd mk])
next
  case (Some i)
  then have "i < length (map alerts cs)" by (simp add: find_cluster_less)
  with inv have "assigns_each_once (xs @ [a]) ((map alerts cs)[i := map alerts cs ! i @ [a]])"
    by (rule assigns_upd)
  then show ?thesis using Some by (simp add: place_alert_members [OF upd mk])
qed

lemma cluster_loop_assigns:
  assumes upd: "\<And>a c. alerts (upd a c) = alerts c @ [a]" and mk: "\<And>a. alerts (mk a) = [a]"
  shows "assigns_each_once xs (map alerts cs) \<Longrightarrow>
    assigns_each_once (xs @ as) (map alerts (cluster_loop upd mk as cs))"
proof (induction as arbitrary: xs cs)
  case Nil
  then show ?case by simp
next
  case (Cons a as)
  have "assigns_each_once (xs @ [a]) (map alerts (place_alert upd mk a cs))"
    using upd mk Cons.prems by (rule place_alert_assigns)
  then have "assigns_each_once ((xs @ [a]) @ as)
      (map alerts (cluster_loop upd mk as (place_alert upd mk a cs)))"
    by (rule Cons.IH)
  then show ?case by simp
qed

lemma assigns_empty: "assigns_each_once [] []"
  unfolding assigns_each_once_def by (rule exI [of _ "[]"]) simp

lemma assigns_filter:
  assumes "assigns_each_once xs ms"
  shows "disjoint_sublists xs (filter P ms)"
proof -
  from assms obtain Is where ms: "ms = map (nths xs) Is" and pd: "pairwise_disjoint Is"
    by (auto simp: assigns_each_once_def)
  have "filter P ms = map (nths xs) (filter (P \<circ> nths xs) Is)"
    by (simp add: ms filter_map)
  moreover have "pairwise_disjoint (filter (P \<circ> nths xs) Is)"
    using pd by (rule pairwise_disjoint_filter)
  ultimately show ?thesis unfolding disjoint_sublists_def by blast
qed

lemma mset_concat_update:
  "i < length ms \<Longrightarrow> mset (concat (ms[i := ms ! i @ [a]])) = add_mset a (mset (concat ms))"
proof (induction ms arbitrary: i)
  case Nil
  then show ?case by simp
next
  case (Cons m ms)
  then show ?case by (cases i) simp_all
qed

lemma place_alert_mset:
  assumes upd: "\<And>a c. alerts (upd a c) = alerts c @ [a]" and mk: "\<And>a. alerts (mk a) = [a]"
  shows "mset (concat (map alerts (place_alert upd mk a cs))) = add_mset a (mset (concat (map alerts cs)))"
proof (cases "find_cluster (get_lat a) (get_lon a) cs")
  case None
  then show ?thesis by (simp add: place_alert_members [OF upd mk])
next
  case (Some i)
  then have "i < length (map alerts cs)" by (simp add: find_cluster_less)
  then show ?thesis using Some
    by (simp add: place_alert_members [OF upd mk] mset_concat_update del: length_map)
qed

lemma cluster_loop_mset:
  assumes upd: "\<And>a c. alerts (upd a c) = alerts c @ [a]" and mk: "\<And>a. alerts (mk a) = [a]"
  shows "mset (concat (map alerts (cluster_loop upd mk as cs))) = mset (concat (map alerts cs)) + mset as"
  by (induction as arbitrary: cs) (simp_all add: place_alert_mset [OF upd mk])

lemma cluster_loop_invariant:
  assumes upd: "\<And>a c. Q c \<Longrightarrow> Q (upd a c)" and mk: "\<And>a. Q (mk a)"
  shows "\<forall>c\<in>set cs. Q c \<Longrightarrow> \<forall>c\<in>set (cluster_loop upd mk as cs). Q c"
proof (induction as arbitrary: cs)
  case Nil
  then show ?case by simp
next
  case (Cons a as)
  have "\<forall>c\<in>set (place_alert upd mk a cs). Q c"
  proof (cases "find_cluster (get_lat a) (get_lon a) cs")
    case None
    then show ?thesis using Cons.prems mk by (simp add: place_alert_def)
  next
    case (Some i)
    then have i: "i < length cs" by (rule find_cluster_less)
    then have "Q (upd a (cs ! i))" using Cons.prems upd by simp
    moreover have "set (cs[i := upd a (cs ! i)]) \<subseteq> insert (upd a (cs ! i)) (set cs)"
      by (rule set_update_subset_insert)
    ultimately show ?thesis using Some Cons.prems by (auto simp: place_alert_def)
  qed
  then show ?case using Cons.IH by simp
qed

lemma alerts_absorb: "alerts (absorb a c) = alerts c @ [a]"
  by (simp add: absorb_def Let_def)

lemma alerts_absorb_stale: "alerts (absorb_stale a c) = alerts c @ [a]"
  by (simp add: absorb_stale_def Let_def)

lemma alerts_absorb_engine: "alerts (absorb_engine a c) = alerts c @ [a]"
  by (simp add: absorb_engine_def)

lemma alerts_new_cluster: "alerts (new_cluster a) = [a]"
  by (simp add: new_cluster_def)

lemma alerts_new_cluster_engine: "alerts (new_cluster_engine a) = [a]"
  by (simp add: new_cluster_engine_def)

lemma internal_count:
  "\<forall>c\<in>set (internal_clusters xs). count c = length (alerts c)"
  unfolding internal_clusters_def
  by (rule cluster_loop_invariant) (simp_all add: absorb_def new_cluster_def Let_def)

lemma stale_count:
  "\<forall>c\<in>set (cluster_loop absorb_stale new_cluster xs []). count c = 1"
  by (rule cluster_loop_invariant) (simp_all add: absorb_stale_def new_cluster_def Let_def)




lemma analyze_as_filter:
  "analyze_location_clusters xs = filter (\<lambda>c. 2 \<le> length (alerts c)) (internal_clusters xs)"
  unfolding analyze_location_clusters_def
  by (rule filter_cong) (use internal_count in \<open>auto simp: Suc_le_eq\<close>)

lemma analyze_advanced_as_filter:
  "analyze_location_clusters_advanced xs =
     filter (\<lambda>c. 2 \<le> length (alerts c)) (internal_clusters_advanced xs)"
  by (simp add: analyze_location_clusters_advanced_def internal_clusters_advanced_def
      Suc_le_eq numeral_2_eq_2)


lemma analyze_engine_as_filter:
  "analyze_location_clusters_engine xs =
     filter (\<lambda>c. 2 \<le> length (alerts c)) (internal_clusters_engine xs)"
  by (simp add: analyze_location_clusters_engine_def Suc_le_eq numeral_2_eq_2)

lemma cluster_loop_partitions:
  assumes upd: "\<And>a c. alerts (upd a c) = alerts c @ [a]" and mk: "\<And>a. alerts (mk a) = [a]"
  shows "partitions xs (cluster_loop upd mk xs [])
           (filter (\<lambda>c. 2 \<le> length (alerts c)) (cluster_loop upd mk xs []))"
proof -
  let ?cs = "cluster_loop upd mk xs []"
  have a: "assigns_each_once xs (map alerts ?cs)"
    using cluster_loop_assigns [OF upd mk, of "[]" "[]" xs] assigns_empty by simp
  have m: "mset (concat (map alerts ?cs)) = mset xs"
    by (simp add: cluster_loop_mset [OF upd mk])
  have "length (concat (map alerts ?cs)) = length xs"
    using m by (rule mset_eq_length)
  then have l: "sum_list (map (\<lambda>c. length (alerts c)) ?cs) = length xs"
    by (simp add: length_concat o_def)
  have "disjoint_sublists xs (filter (\<lambda>m. 2 \<le> length m) (map alerts ?cs))"
    using a by (rule assigns_filter)
  then have d: "disjoint_sublists xs (map alerts (filter (\<lambda>c. 2 \<le> length (alerts c)) ?cs))"
    by (simp add: filter_map o_def)
  show ?thesis unfolding partitions_def using a m l d by simp
qed

lemma eval_internal_example:
  "internal_clusters [alert_a, alert_b, alert_far] =
     [\<lparr>center = (14.6255, -90.525), alerts = [alert_a, alert_b], count = 2\<rparr>,
      \<lparr>center = (15, -90.525), alerts = [alert_far], count = 1\<rparr>]"
  by (simp add: internal_clusters_def place_alert_def new_cluster_def absorb_def
      alert_a_def alert_b_def alert_far_def get_lat_def get_lon_def distance_lt_eval
      avg_lat_def avg_lon_def power2_eq_square)



section \<open>Properties of the trend analysis\<close>

lemma keys_bump:
  "map fst (bump d items) = (if d \<in> fst ` set items then map fst items else map fst items @ [d])"
  by (induction items) (auto split: if_splits)

lemma distinct_bump: "distinct (map fst items) \<Longrightarrow> distinct (map fst (bump d items))"
  by (simp add: keys_bump)

lemma set_keys_bump: "fst ` set (bump d items) = insert d (fst ` set items)"
  using keys_bump [of d items] by (metis (no_types, lifting) insert_absorb list.set_map list.simps(15) set_append Un_insert_right sup_bot.right_neutral set_simps(1) list.set(1))

lemma count_days_keys:
  "distinct (map fst daily) \<Longrightarrow>
   distinct (map fst (count_days xs daily)) \<and>
   fst ` set (count_days xs daily) = fst ` set daily \<union> creation_dates xs"
proof (induction xs arbitrary: daily)
  case Nil
  then show ?case by (simp add: creation_dates_def)
next
  case (Cons a as)
  show ?case
  proof (cases "created_at a")
    case None
    with Cons show ?thesis by (simp add: creation_dates_def)
  next
    case (Some t)
    from Cons.prems have "distinct (map fst (bump (date t) daily))" by (rule distinct_bump)
    from Cons.IH [OF this] Some show ?thesis
      by (auto simp: creation_dates_def set_keys_bump)
  qed
qed

lemma length_count_days: "length (count_days xs []) = card (creation_dates xs)"
proof -
  from count_days_keys [of "[]" xs]
  have d: "distinct (map fst (count_days xs []))"
    and s: "fst ` set (count_days xs []) = creation_dates xs" by simp_all
  have "length (count_days xs []) = length (map fst (count_days xs []))"
    by simp
  also have "\<dots> = card (set (map fst (count_days xs [])))"
    using d by (simp only: distinct_card)
  finally show ?thesis using s by simp
qed

lemma length_last_n: "length (last_n n xs) = min n (length xs)"
  by (simp add: last_n_def)

lemma count_days_strict_eq:
  "\<forall>a\<in>set xs. created_at a \<noteq> None \<Longrightarrow> count_days_strict xs daily = Inr (count_days xs daily)"
  by (induction xs arbitrary: daily) (auto split: option.splits)

lemma trend_floor_main:
  assumes "xs \<noteq> []" and "card (creation_dates xs) < 2"
  shows "analyze_trends xs =
    \<lparr>trend = ''insufficient_data'', increasing = Some False, recent_counts = None\<rparr>"
  using assms by (simp add: analyze_trends_def Let_def length_last_n length_count_days)

lemma trend_floor_advanced:
  assumes "xs \<noteq> []" and "\<forall>a\<in>set xs. created_at a \<noteq> None" and "card (creation_dates xs) < 2"
  shows "analyze_trends_advanced xs =
    Inr \<lparr>trend = ''insufficient_data'', increasing = Some False, recent_counts = None\<rparr>"
  using assms
  by (simp add: analyze_trends_advanced_def count_days_strict_eq Let_def length_last_n
      length_count_days)

lemma trend_engine_labels:
  "analyze_trends_engine now xs = Inr r \<Longrightarrow> trend r = ''stable'' \<or> trend r = ''increasing''"
  by (auto simp: analyze_trends_engine_def Let_def split: if_splits sum.splits)

lemma dates_example: "creation_dates [alert_mon, alert_mon_severe] = {738000}"
  by (simp add: creation_dates_def alert_mon_def alert_mon_severe_def date_def)

section \<open>Properties of the risk scoring\<close>

text \<open>Erasing the severities changes neither the clusters' positions nor the trend.\<close>

lemma blank_coords [simp]: "get_lat (blank a) = get_lat a" "get_lon (blank a) = get_lon a"
  "created_at (blank a) = created_at a"
  by (simp_all add: blank_def get_lat_def get_lon_def)

lemma avg_blank [simp]: "avg_lat (map blank as) = avg_lat as" "avg_lon (map blank as) = avg_lon as"
  by (simp_all add: avg_lat_def avg_lon_def o_def)

lemma find_cluster_blank:
  "find_cluster la lo (map blank_cluster cs) = find_cluster la lo cs"
  by (induction cs) (simp_all add: blank_cluster_def)

lemma place_alert_blank:
  assumes upd: "\<And>a c. upd (blank a) (blank_cluster c) = blank_cluster (upd a c)"
    and mk: "\<And>a. mk (blank a) = blank_cluster (mk a)"
  shows "place_alert upd mk (blank a) (map blank_cluster cs) =
         map blank_cluster (place_alert upd mk a cs)"
proof (cases "find_cluster (get_lat a) (get_lon a) cs")
  case None
  then show ?thesis by (simp add: place_alert_def find_cluster_blank mk)
next
  case (Some i)
  then have "i < length cs" by (rule find_cluster_less)
  then show ?thesis using Some
    by (simp add: place_alert_def find_cluster_blank upd map_update)
qed

lemma cluster_loop_blank:
  assumes upd: "\<And>a c. upd (blank a) (blank_cluster c) = blank_cluster (upd a c)"
    and mk: "\<And>a. mk (blank a) = blank_cluster (mk a)"
  shows "cluster_loop upd mk (map blank xs) (map blank_cluster cs) =
         map blank_cluster (cluster_loop upd mk xs cs)"
  by (induction xs arbitrary: cs) (simp_all add: place_alert_blank [of upd mk, OF upd mk])

lemma avg_blank_snoc [simp]:
  "avg_lat (map blank as @ [blank a]) = avg_lat (as @ [a])"
  "avg_lon (map blank as @ [blank a]) = avg_lon (as @ [a])"
  by (simp_all add: avg_lat_def avg_lon_def o_def)

lemma absorb_blank: "absorb (blank a) (blank_cluster c) = blank_cluster (absorb a c)"
  by (simp add: absorb_def blank_cluster_def Let_def)

lemma absorb_stale_blank: "absorb_stale (blank a) (blank_cluster c) = blank_cluster (absorb_stale a c)"
  by (simp add: absorb_stale_def blank_cluster_def Let_def)

lemma new_cluster_blank: "new_cluster (blank a) = blank_cluster (new_cluster a)"
  by (simp add: new_cluster_def blank_cluster_def)

lemma internal_blank:
  "cluster_loop absorb new_cluster (map blank xs) (map blank_cluster cs) =
   map blank_cluster (cluster_loop absorb new_cluster xs cs)"
  by (rule cluster_loop_blank) (rule absorb_blank new_cluster_blank)+

lemma internal_advanced_blank:
  "cluster_loop absorb_stale new_cluster (map blank xs) (map blank_cluster cs) =
   map blank_cluster (cluster_loop absorb_stale new_cluster xs cs)"
  by (rule cluster_loop_blank) (rule absorb_stale_blank new_cluster_blank)+

lemma analyze_blank:
  "analyze_location_clusters (map blank xs) = map blank_cluster (analyze_location_clusters xs)"
  using internal_blank [of xs "[]"]
  by (simp add: analyze_location_clusters_def internal_clusters_def filter_map o_def
      blank_cluster_def)

lemma analyze_advanced_blank:
  "analyze_location_clusters_advanced (map blank xs) =
   map blank_cluster (analyze_location_clusters_advanced xs)"
  using internal_advanced_blank [of xs "[]"]
  by (simp add: analyze_location_clusters_advanced_def internal_clusters_advanced_def
      filter_map o_def blank_cluster_def)

lemma same_clusters:
  assumes "same_but_severity xs ys"
  shows "length (analyze_location_clusters xs) = length (analyze_location_clusters ys)"
    and "length (analyze_location_clusters_advanced xs) =
         length (analyze_location_clusters_advanced ys)"
proof -
  from assms have e: "map blank xs = map blank ys"
    by (simp add: same_but_severity_def)
  have "length (analyze_location_clusters xs) = length (analyze_location_clusters (map blank xs))"
    by (simp add: analyze_blank)
  also have "\<dots> = length (analyze_location_clusters ys)"
    by (simp add: e analyze_blank)
  finally show "length (analyze_location_clusters xs) = length (analyze_location_clusters ys)" .
  have "length (analyze_location_clusters_advanced xs) =
        length (analyze_location_clusters_advanced (map blank xs))"
    by (simp only: analyze_advanced_blank length_map)
  also have "\<dots> = length (analyze_location_clusters_advanced ys)"
    by (simp only: e analyze_advanced_blank length_map)
  finally show "length (analyze_location_clusters_advanced xs) =
         length (analyze_location_clusters_advanced ys)" .
qed

lemma same_times:
  assumes "same_but_severity xs ys"
  shows "map created_at xs = map created_at ys"
proof -
  from assms have "map created_at (map blank xs) = map created_at (map blank ys)"
    by (simp add: same_but_severity_def)
  then show ?thesis by (simp add: o_def)
qed

lemma count_days_times:
  "map created_at xs = map created_at ys \<Longrightarrow> count_days xs daily = count_days ys daily"
proof (induction xs arbitrary: ys daily)
  case Nil
  then show ?case by simp
next
  case (Cons a as)
  then obtain b bs where "ys = b # bs" "created_at a = created_at b"
    "map created_at as = map created_at bs" by (cases ys) auto
  with Cons.IH show ?case by (simp split: option.splits)
qed

lemma count_days_strict_times:
  "map created_at xs = map created_at ys \<Longrightarrow>
   count_days_strict xs daily = count_days_strict ys daily"
proof (induction xs arbitrary: ys daily)
  case Nil
  then show ?case by simp
next
  case (Cons a as)
  then obtain b bs where "ys = b # bs" "created_at a = created_at b"
    "map created_at as = map created_at bs" by (cases ys) auto
  with Cons.IH show ?case by (simp split: option.splits)
qed

lemma same_trends:
  assumes "same_but_severity xs ys"
  shows "analyze_trends xs = analyze_trends ys"
    and "analyze_trends_advanced xs = analyze_trends_advanced ys"
proof -
  from assms have t: "map created_at xs = map created_at ys" by (rule same_times)
  then have "length (map created_at xs) = length (map created_at ys)" by simp
  then have n: "xs = [] \<longleftrightarrow> ys = []" by auto
  show "analyze_trends xs = analyze_trends ys"
    by (simp add: analyze_trends_def n count_days_times [OF t])
  show "analyze_trends_advanced xs = analyze_trends_advanced ys"
    by (simp add: analyze_trends_advanced_def n count_days_strict_times [OF t])
qed

lemma risk_score_mono: "k \<le> k' \<Longrightarrow> h \<le> h' \<Longrightarrow> risk_score k h \<le> risk_score k' h'"
  unfolding risk_score_def by (intro add_mono mult_right_mono) simp_all

lemma dashboard_score_mono: "h \<le> h' \<Longrightarrow> dashboard_score h r \<le> dashboard_score h' r"
  unfolding dashboard_score_def by (intro add_mono mult_right_mono) simp_all

lemma grade_mono: "s \<le> t \<Longrightarrow> level_le (grade s) (grade t)"
  by (simp add: grade_def level_le_def level_of_def)

lemma grade_advanced_mono: "s \<le> t \<Longrightarrow> level_le (grade_advanced s) (grade_advanced t)"
  by (simp add: grade_advanced_def level_le_def level_of_def)

lemma risk_level_main:
  "risk_level (risk_assessment (Reply st body)) =
     (let d = (if st = 200 then body else [])
      in grade (risk_score (length (factor_high d @ factor_clusters d @ factor_trend d))
                 (length (high_severity d))))"
  by (simp add: risk_assessment_def Let_def)

lemma risk_main_mono:
  assumes same: "same_but_severity xs ys"
    and more: "length (high_severity xs) \<le> length (high_severity ys)"
  shows "level_le (risk_level (risk_assessment (Reply st xs)))
                  (risk_level (risk_assessment (Reply st ys)))"
proof -
  have h: "length (factor_high xs) \<le> length (factor_high ys)"
    using more by (auto simp: factor_high_def)
  have c: "length (factor_clusters xs) = length (factor_clusters ys)"
    using same_clusters(1) [OF same] by (auto simp: factor_clusters_def Let_def)
  have t: "length (factor_trend xs) = length (factor_trend ys)"
    using same_trends(1) [OF same] by (simp add: factor_trend_def)
  have "length (factor_high xs @ factor_clusters xs @ factor_trend xs) \<le>
        length (factor_high ys @ factor_clusters ys @ factor_trend ys)"
    using h c t by simp
  then have "risk_score (length (factor_high xs @ factor_clusters xs @ factor_trend xs))
               (length (high_severity xs)) \<le>
             risk_score (length (factor_high ys @ factor_clusters ys @ factor_trend ys))
               (length (high_severity ys))"
    using more by (rule risk_score_mono)
  then have "level_le
      (grade (risk_score (length (factor_high xs @ factor_clusters xs @ factor_trend xs))
               (length (high_severity xs))))
      (grade (risk_score (length (factor_high ys @ factor_clusters ys @ factor_trend ys))
               (length (high_severity ys))))"
    by (rule grade_mono)
  moreover have "level_le (grade (risk_score (length (factor_high [] @ factor_clusters [] @ factor_trend []))
               (length (high_severity []))))
      (grade (risk_score (length (factor_high [] @ factor_clusters [] @ factor_trend []))
               (length (high_severity []))))"
    by (rule grade_mono) simp
  ultimately show ?thesis
    by (cases "st = 200") (simp_all only: risk_level_main Let_def if_True if_False simp_thms)
qed

lemma risk_advanced_mono:
  assumes same: "same_but_severity xs ys"
    and more: "length (high_severity xs) \<le> length (high_severity ys)"
  shows "case (risk_assessment_advanced (Reply st xs) ext, risk_assessment_advanced (Reply st ys) ext) of
           (Inr p, Inr q) \<Rightarrow> level_le (risk_level p) (risk_level q)
         | (Inl e, Inl e') \<Rightarrow> e = e'
         | _ \<Rightarrow> False"
proof (cases ext)
  case (Raised e)
  then show ?thesis by (simp add: risk_assessment_advanced_def)
next
  case (Reply est ebody)
  define dx where "dx = (if st = 200 then xs else [])"
  define dy where "dy = (if st = 200 then ys else [])"
  define ex where "ex = (if est = 200 then ebody else [])"
  have same': "same_but_severity dx dy" and more': "length (high_severity dx) \<le> length (high_severity dy)"
    using same more by (simp_all add: dx_def dy_def same_but_severity_def)
  have tr: "analyze_trends_advanced dx = analyze_trends_advanced dy"
    using same' by (rule same_trends(2))
  show ?thesis
  proof (cases "analyze_trends_advanced dy")
    case (Inl e)
    with tr Reply show ?thesis
      by (simp add: risk_assessment_advanced_def dx_def dy_def)
  next
    case (Inr t)
    have h: "length (factor_high_advanced dx) \<le> length (factor_high_advanced dy)"
      using more' by (auto simp: factor_high_advanced_def)
    have c: "length (factor_clusters_advanced dx) = length (factor_clusters_advanced dy)"
      using same_clusters(2) [OF same'] by (auto simp: factor_clusters_advanced_def Let_def)
    define rest where "rest = factor_external ex @
      (if is_increasing t then [(''Tendencia creciente en n'' @ [CHR 0xFA] @ ''mero de alertas'',
         ''Aumentar capacidad de respuesta'')] else [])"
    have "length (factor_high_advanced dx @ factor_clusters_advanced dx @ rest) \<le>
          length (factor_high_advanced dy @ factor_clusters_advanced dy @ rest)"
      using h c by simp
    then have "risk_score (length (factor_high_advanced dx @ factor_clusters_advanced dx @ rest))
                 (length (high_severity dx)) \<le>
               risk_score (length (factor_high_advanced dy @ factor_clusters_advanced dy @ rest))
                 (length (high_severity dy))"
      using more' by (rule risk_score_mono)
    then have "level_le
        (grade_advanced (risk_score (length (factor_high_advanced dx @ factor_clusters_advanced dx @ rest))
                 (length (high_severity dx))))
        (grade_advanced (risk_score (length (factor_high_advanced dy @ factor_clusters_advanced dy @ rest))
                 (length (high_severity dy))))"
      by (rule grade_advanced_mono)
    moreover have "risk_assessment_advanced (Reply st xs) ext =
        Inr \<lparr>risk_level = grade_advanced (risk_score (length (factor_high_advanced dx @ factor_clusters_advanced dx @ rest))
                 (length (high_severity dx))),
             confidence = min (risk_score (length (factor_high_advanced dx @ factor_clusters_advanced dx @ rest))
                 (length (high_severity dx)) / 3.0) 1.0,
             factors = map fst (factor_high_advanced dx @ factor_clusters_advanced dx @ rest),
             recommendations = map snd (factor_high_advanced dx @ factor_clusters_advanced dx @ rest)\<rparr>"
      using Inr tr Reply
      by (simp add: risk_assessment_advanced_def Let_def rest_def flip: dx_def ex_def)
    moreover have "risk_assessment_advanced (Reply st ys) ext =
        Inr \<lparr>risk_level = grade_advanced (risk_score (length (factor_high_advanced dy @ factor_clusters_advanced dy @ rest))
                 (length (high_severity dy))),
             confidence = min (risk_score (length (factor_high_advanced dy @ factor_clusters_advanced dy @ rest))
                 (length (high_severity dy)) / 3.0) 1.0,
             factors = map fst (factor_high_advanced dy @ factor_clusters_advanced dy @ rest),
             recommendations = map snd (factor_high_advanced dy @ factor_clusters_advanced dy @ rest)\<rparr>"
      using Inr Reply
      by (simp add: risk_assessment_advanced_def Let_def rest_def flip: dy_def ex_def)
    ultimately show ?thesis by simp
  qed
qed

lemma total_pos_item: "sum_list (map snd sc) \<noteq> (0::nat) \<Longrightarrow> \<exists>kv\<in>set sc. snd kv > 0"
  by (induction sc) auto

lemma total_pos_lookup:
  assumes "distinct (map fst sc)" and "sum_list (map snd sc) \<noteq> 0"
  shows "\<exists>k\<in>fst ` set sc. lookup sc k > 0"
proof -
  from total_pos_item [OF assms(2)] obtain k v where kv: "(k, v) \<in> set sc" "v > 0"
    by auto
  with assms(1) have "map_of sc k = Some v" by simp
  with kv show ?thesis by (force simp: lookup_def)
qed

lemma lookup_pos_total: "lookup sc k > 0 \<Longrightarrow> sum_list (map snd sc) \<noteq> 0"
proof -
  assume "lookup sc k > 0"
  then obtain v where "map_of sc k = Some v" "v > 0"
    by (auto simp: lookup_def split: option.splits)
  then have "(k, v) \<in> set sc" by (simp add: map_of_SomeD)
  with \<open>v > 0\<close> have "\<exists>kv\<in>set sc. snd kv > 0" by force
  then show ?thesis by (induction sc) auto
qed

lemma calc_main_mono:
  "h \<le> h' \<Longrightarrow> level_le (calculate_risk_level h r) (calculate_risk_level h' r)"
  using dashboard_score_mono [of h h' r]
  by (simp add: calculate_risk_level_def Let_def level_le_def level_of_def)

lemma calc_advanced_mono:
  assumes d: "distinct (map fst sc)"
    and rest: "\<forall>k. k \<noteq> 3 \<and> k \<noteq> 4 \<longrightarrow> lookup sc k \<le> lookup sc' k"
    and high: "lookup sc 3 + lookup sc 4 \<le> lookup sc' 3 + lookup sc' 4"
  shows "level_le (calculate_risk_level_advanced sc r) (calculate_risk_level_advanced sc' r)"
proof (cases "sum_list (map snd sc) = 0")
  case True
  then show ?thesis
    by (simp add: calculate_risk_level_advanced_def Let_def level_le_def level_of_def)
next
  case False
  with d obtain k where k: "lookup sc k > 0"
    using total_pos_lookup by blast
  have "\<exists>j. lookup sc' j > 0"
  proof (cases "k = 3 \<or> k = 4")
    case True
    with k have "0 < lookup sc 3 + lookup sc 4" by auto
    with high have "0 < lookup sc' 3 \<or> 0 < lookup sc' 4" by linarith
    then show ?thesis by blast
  next
    case False
    with rest have "lookup sc k \<le> lookup sc' k" by blast
    with k have "0 < lookup sc' k" by linarith
    then show ?thesis by blast
  qed
  then have nz: "sum_list (map snd sc') \<noteq> 0" using lookup_pos_total by blast
  from high have "dashboard_score (lookup sc 3 + lookup sc 4) r \<le>
      dashboard_score (lookup sc' 3 + lookup sc' 4) r"
    by (rule dashboard_score_mono)
  with False nz show ?thesis
    by (simp add: calculate_risk_level_advanced_def Let_def level_le_def level_of_def)
qed

lemma risk_empty_main:
  "risk_assessment (Reply st []) =
     \<lparr>risk_level = ''LOW'', confidence = 0, factors = [], recommendations = []\<rparr>"
  by (simp add: risk_assessment_def Let_def factor_high_def factor_clusters_def factor_trend_def
      high_severity_def analyze_location_clusters_def internal_clusters_def analyze_trends_def
      is_increasing_def risk_score_def grade_def)

lemma risk_empty_advanced:
  "risk_assessment_advanced (Reply st []) (Reply st' []) =
     Inr \<lparr>risk_level = ''BAJO'', confidence = 0, factors = [], recommendations = []\<rparr>"
  by (simp add: risk_assessment_advanced_def Let_def factor_high_advanced_def
      factor_clusters_advanced_def factor_external_def
      high_severity_def analyze_location_clusters_advanced_def analyze_trends_advanced_def
      is_increasing_def risk_score_def grade_advanced_def)

section \<open>Properties of the recommendations\<close>



















section \<open>Properties of the ingestion\<close>

lemma titled_insert_row:
  "titled t (insert_row new store) =
     titled t store @ (if Alert.title new = t then [new\<lparr>alert_id := Suc (length store)\<rparr>] else [])"
  by (simp add: titled_def insert_row_def)

lemma first_titled_None: "first_titled t store = None \<longleftrightarrow> titled t store = []"
  by (auto simp: first_titled_def titled_def find_None_iff filter_empty_conv)

lemma ingest_titled:
  "length (titled t (snd (ingest as store))) \<le> max 1 (length (titled t store))"
proof (induction as arbitrary: store)
  case Nil
  then show ?case by simp
next
  case (Cons a as)
  show ?case
  proof (cases "raw_alert.title a")
    case None
    then show ?thesis by simp
  next
    case (Some u)
    show ?thesis
    proof (cases "first_titled u store")
      case (Some existing)
      with \<open>raw_alert.title a = Some u\<close> Cons.IH [of store] show ?thesis by simp
    next
      case None
      then have empty: "titled u store = []" by (simp add: first_titled_None)
      show ?thesis
      proof (cases "raw_alert.description a")
        case None
        with \<open>raw_alert.title a = Some u\<close> \<open>first_titled u store = None\<close> show ?thesis by simp
      next
        case (Some d)
        let ?new = "\<lparr>alert_id = 0, Alert.title = u, description = Some d,
            severity = raw_severity a, lat = raw_lat a, lon = raw_lon a,
            source = Some ''GOOGLE'', alert_type = None\<rparr>"
        have "length (titled t (insert_row ?new store)) \<le> max 1 (length (titled t store))"
          using empty by (cases "u = t") (simp_all add: titled_insert_row)
        moreover have "length (titled t (snd (ingest as (insert_row ?new store))))
            \<le> max 1 (length (titled t (insert_row ?new store)))"
          by (rule Cons.IH)
        ultimately show ?thesis
          using \<open>raw_alert.title a = Some u\<close> \<open>first_titled u store = None\<close> Some by simp
      qed
    qed
  qed
qed

lemma fetch_titled:
  "length (titled t (snd (fetch_google_alerts response store))) \<le> max 1 (length (titled t store))"
  using ingest_titled [of t _ store]
  by (cases response) (simp_all add: fetch_google_alerts_def)

lemma create_titled:
  "length (titled t (snd (create_alert c store))) \<le>
     length (titled t store) + (if AlertCreate.title c = t then 1 else 0)"
  by (simp add: create_alert_def titled_insert_row Let_def split: option.splits)

lemma create_accepted:
  assumes "create_alert c store = (Inr a, store')"
  shows "store' = store @ [a] \<and> Alert.title a = AlertCreate.title c"
  using assms
  by (auto simp: create_alert_def insert_row_def Let_def split: if_splits option.splits)

lemma perform_titled:
  "length (titled t (perform c store)) \<le>
     max 1 (length (titled t store)) + (if submits t c then 1 else 0)"
proof (cases c)
  case (Fetch response)
  then show ?thesis using fetch_titled [of t response store] by simp
next
  case (Create alert_data)
  then show ?thesis using create_titled [of t alert_data store] by auto
qed

lemma run_titled:
  "length (titled t (run cs store)) \<le>
     max 1 (length (titled t store)) + length (filter (submits t) cs)"
proof (induction cs arbitrary: store)
  case Nil
  then show ?case by simp
next
  case (Cons c cs)
  have "length (titled t (run cs (perform c store))) \<le>
      max 1 (length (titled t (perform c store))) + length (filter (submits t) cs)"
    by (rule Cons.IH)
  with perform_titled [of t c store] show ?case by (auto split: if_splits)
qed

lemma run_feed_twice:
  "map Alert.description (titled ''Flood'' (run [Fetch flood_feed, Fetch flood_feed] [])) =
     [Some ''Feed'']"
  by (simp add: flood_feed_def fetch_google_alerts_def first_titled_def insert_row_def
      titled_def)

lemma run_feed_then_report:
  "map Alert.description (titled ''Flood'' (run [Fetch flood_feed, Create flood_report] [])) =
     [Some ''Feed'', Some ''River'']"
  by (simp add: flood_feed_def flood_report_def fetch_google_alerts_def first_titled_def
      insert_row_def titled_def create_alert_def Let_def)

section \<open>Properties of the source adapters\<close>

text \<open>
  Each of the four adapters of \<^verbatim>\<open>external_data.py\<close> answers a failed call with \<^verbatim>\<open>None\<close>, and
  the aggregate fetch is the concatenation of what the adapters found: a provider that
  fails contributes what a provider with nothing to report contributes, and the others'
  alerts are the same.
\<close>

lemma json_of_failure:
  "json_of (Raised e) = Inl (RequestException e)"
  "400 \<le> st \<Longrightarrow> st < 600 \<Longrightarrow> json_of (Reply st body) = Inl (RequestException ''HTTPError'')"
  by (simp_all add: json_of_def)

lemma adapters_catch:
  "json_of meteo = Inl e \<Longrightarrow> fetch_open_meteo_data meteo la lo = None"
  "json_of weather = Inl e \<Longrightarrow> fetch_weather_alerts api_key weather la lo = None"
  "fetch_weather_alerts [] weather la lo = None"
  "json_of gdacs = Inl e \<Longrightarrow> fetch_gdacs_alerts gdacs = None"
  "json_of nasa = Inl e \<Longrightarrow> fetch_nasa_power_data nasa la lo = None"
  by (simp_all add: fetch_open_meteo_data_def fetch_weather_alerts_def fetch_gdacs_alerts_def
      fetch_nasa_power_data_def)

lemma adapter_isolation:
  "check_all_sources api_key (Raised e) weather gdacs nasa =
     check_all_sources api_key (Reply 200 \<lparr>precipitation = None, weather_code = None,
       precipitation_sum = []\<rparr>) weather gdacs nasa"
  "check_all_sources api_key meteo (Raised e) gdacs nasa =
     check_all_sources [] meteo weather gdacs nasa"
  "check_all_sources api_key meteo weather (Raised e) nasa =
     check_all_sources api_key meteo weather (Reply 200 []) nasa"
  "check_all_sources api_key meteo weather gdacs (Raised e) =
     check_all_sources api_key meteo weather gdacs (Reply 200 [])"
  by (simp_all add: check_all_sources_def fetch_open_meteo_data_def fetch_weather_alerts_def
      fetch_gdacs_alerts_def fetch_nasa_power_data_def json_of_def extend_with_def)

lemma check_all_sources_example:
  "map source_alert.title (check_all_sources [] rainy (Raised ''timeout'') orange_event (Raised ''dns'')) =
     [''Alerta de Lluvia Intensa'', ''GDACS: Flood'']"
  by (simp add: check_all_sources_def fetch_open_meteo_data_def fetch_gdacs_alerts_def
      fetch_nasa_power_data_def json_of_def extend_with_def rainy_def orange_event_def
      severity_map_def)

section \<open>Properties of the clustering on doubles\<close>

subsection \<open>Rounding to the nearest double\<close>















subsection \<open>The distances and means of the example\<close>










subsection \<open>The loop on doubles\<close>







lemma running_centre_single: "running_centre [a] = (get_lat a, get_lon a)"
  by (simp add: running_centre_def)




lemma follows_centre_Cons:
  "follows_centre (a # as) \<longleftrightarrow>
     (\<forall>k<length as. distance64 (get_lat (as ! k)) (get_lon (as ! k))
        (running_centre ([a] @ take k as)) < radius64)"
proof
  assume f: "follows_centre (a # as)"
  show "\<forall>k<length as. distance64 (get_lat (as ! k)) (get_lon (as ! k))
        (running_centre ([a] @ take k as)) < radius64"
  proof (intro allI impI)
    fix k assume "k < length as"
    then show "distance64 (get_lat (as ! k)) (get_lon (as ! k))
        (running_centre ([a] @ take k as)) < radius64"
      using f [unfolded follows_centre_def, rule_format, of "Suc k"] by simp
  qed
next
  assume r: "\<forall>k<length as. distance64 (get_lat (as ! k)) (get_lon (as ! k))
        (running_centre ([a] @ take k as)) < radius64"
  show "follows_centre (a # as)"
    unfolding follows_centre_def
  proof (intro allI impI)
    fix k assume k: "0 < k \<and> k < length (a # as)"
    then obtain j where "k = Suc j" by (cases k) auto
    with k r [rule_format, of j]
    show "distance64 (get_lat ((a # as) ! k)) (get_lon ((a # as) ! k))
        (running_centre (take k (a # as))) < radius64" by simp
  qed
qed

lemma follows_centre_pair:
  "follows_centre [a, b] \<longleftrightarrow>
     distance64 (get_lat b) (get_lon b) (get_lat a, get_lon a) < radius64"
  by (simp add: follows_centre_Cons running_centre_single)



subsection \<open>The three copies\<close>













subsection \<open>The example\<close>



lemma alert_p_q: "alert_p \<noteq> alert_q"
  by (simp add: alert_p_def alert_q_def lat_p_def lat_q_def)












section \<open>Claims about the clustering\<close>







text \<open>
  Claim C10. For every snapshot, the internal clusters assign every alert exactly once: the
  member lists are the sublists of the snapshot at pairwise disjoint sets of positions that
  cover all positions, so every member comes from the snapshot, the members of all
  clusters together are the alerts of the snapshot, and their number is its length. The
  returned clusters are the internal ones with at least two members, hence sublists of
  the snapshot at pairwise disjoint sets of positions. This holds for the copies of
  \<^verbatim>\<open>main.py\<close>, \<^verbatim>\<open>advanced_mcp.py\<close> and \<^verbatim>\<open>recommendation_engine.py\<close>.
\<close>

theorem clustering_assigns_each_alert_once:
  "partitions xs (internal_clusters xs) (analyze_location_clusters xs) \<and>
   partitions xs (internal_clusters_advanced xs) (analyze_location_clusters_advanced xs) \<and>
   partitions xs (internal_clusters_engine xs) (analyze_location_clusters_engine xs)"
  unfolding analyze_as_filter analyze_advanced_as_filter analyze_engine_as_filter
    internal_clusters_def internal_clusters_advanced_def internal_clusters_engine_def
  by (intro conjI cluster_loop_partitions alerts_absorb alerts_absorb_stale
      alerts_absorb_engine alerts_new_cluster alerts_new_cluster_engine)

text \<open>
  On the three example alerts the position sets are \<open>{0, 1}\<close> and \<open>{2}\<close>, and the first
  of the two clusters is returned.
\<close>

theorem clustering_assigns_each_alert_once_witness:
  "map alerts (internal_clusters [alert_a, alert_b, alert_far]) =
     map (nths [alert_a, alert_b, alert_far]) [{0, 1}, {2}] \<and>
   pairwise_disjoint [{0, 1}, {2::nat}] \<and>
   \<Union>(set [{0, 1}, {2::nat}]) = {..<length [alert_a, alert_b, alert_far]} \<and>
   map alerts (analyze_location_clusters [alert_a, alert_b, alert_far]) =
     map (nths [alert_a, alert_b, alert_far]) [{0, 1}] \<and>
   partitions [alert_a, alert_b, alert_far] (internal_clusters [alert_a, alert_b, alert_far])
     (analyze_location_clusters [alert_a, alert_b, alert_far])"
proof -
  have "\<Union>(set [{0, 1}, {2::nat}]) = {..<length [alert_a, alert_b, alert_far]}"
    by auto
  moreover have "map alerts (internal_clusters [alert_a, alert_b, alert_far]) =
      map (nths [alert_a, alert_b, alert_far]) [{0, 1}, {2}]"
    by (simp add: eval_internal_example nths_Cons)
  moreover have "map alerts (analyze_location_clusters [alert_a, alert_b, alert_far]) =
      map (nths [alert_a, alert_b, alert_far]) [{0, 1}]"
    by (simp add: eval_internal_example analyze_location_clusters_def nths_Cons)
  moreover have "pairwise_disjoint [{0, 1}, {2::nat}]" by simp
  ultimately show ?thesis
    using clustering_assigns_each_alert_once [of "[alert_a, alert_b, alert_far]"]
    by blast
qed


section \<open>Claims about trends and risk\<close>

text \<open>
  Claim C5, as amended. The analyzers of \<^verbatim>\<open>main.py\<close> and \<^verbatim>\<open>advanced_mcp.py\<close> return
  \<^verbatim>\<open>stable\<close> on the empty snapshot, which a guard decides before any date is read. On a
  snapshot that is not empty and whose alerts fall on fewer than two distinct calendar
  dates they return \<^verbatim>\<open>insufficient_data\<close>; for \<^verbatim>\<open>advanced_mcp.py\<close> every timestamp must
  be readable, since it has no handler around the parsing. The date is the calendar day
  the timestamp itself shows. The simplified analyzer of \<^verbatim>\<open>recommendation_engine.py\<close>
  has no such floor: whenever it returns, its trend is \<^verbatim>\<open>stable\<close> or \<^verbatim>\<open>increasing\<close>.
\<close>

theorem trend_floor:
  "analyze_trends [] = \<lparr>trend = ''stable'', increasing = Some False, recent_counts = None\<rparr> \<and>
   analyze_trends_advanced [] =
     Inr \<lparr>trend = ''stable'', increasing = Some False, recent_counts = None\<rparr> \<and>
   (xs \<noteq> [] \<and> card (creation_dates xs) < 2 \<longrightarrow>
      analyze_trends xs =
        \<lparr>trend = ''insufficient_data'', increasing = Some False, recent_counts = None\<rparr>) \<and>
   (xs \<noteq> [] \<and> (\<forall>a\<in>set xs. created_at a \<noteq> None) \<and> card (creation_dates xs) < 2 \<longrightarrow>
      analyze_trends_advanced xs =
        Inr \<lparr>trend = ''insufficient_data'', increasing = Some False, recent_counts = None\<rparr>) \<and>
   (analyze_trends_engine now xs = Inr r \<longrightarrow> trend r = ''stable'' \<or> trend r = ''increasing'')"
  using trend_floor_main [of xs] trend_floor_advanced [of xs] trend_engine_labels [of now xs r]
  by (simp add: analyze_trends_def analyze_trends_advanced_def)

text \<open>Two alerts of the same day satisfy the hypotheses of C5.\<close>

theorem trend_floor_witness:
  "[alert_mon, alert_mon_severe] \<noteq> [] \<and>
   created_at alert_mon \<noteq> None \<and> created_at alert_mon_severe \<noteq> None \<and>
   card (creation_dates [alert_mon, alert_mon_severe]) < 2 \<and>
   analyze_trends [alert_mon, alert_mon_severe] =
     \<lparr>trend = ''insufficient_data'', increasing = Some False, recent_counts = None\<rparr> \<and>
   analyze_trends_advanced [alert_mon, alert_mon_severe] =
     Inr \<lparr>trend = ''insufficient_data'', increasing = Some False, recent_counts = None\<rparr> \<and>
   analyze_trends_engine 63763250000000000 [alert_mon, alert_mon_severe] =
     Inr \<lparr>trend = ''increasing'', increasing = Some True, recent_counts = None\<rparr>"
proof -
  have t: "created_at alert_mon \<noteq> None" "created_at alert_mon_severe \<noteq> None"
    by (simp_all add: alert_mon_def alert_mon_severe_def)
  have e: "analyze_trends_engine 63763250000000000 [alert_mon, alert_mon_severe] =
     Inr \<lparr>trend = ''increasing'', increasing = Some True, recent_counts = None\<rparr>"
    by (simp add: analyze_trends_engine_def alert_mon_def alert_mon_severe_def Let_def)
  show ?thesis
    using trend_floor [of "[alert_mon, alert_mon_severe]"
        63763250000000000 "\<lparr>trend = ''increasing'', increasing = Some True, recent_counts = None\<rparr>"]
      t e
    by (simp add: dates_example)
qed

text \<open>
  Claim C5 as stated includes the empty snapshot, which has no date at all; the analyzer
  answers \<^verbatim>\<open>stable\<close> there.
\<close>

theorem trend_floor_empty_counterexample:
  "card (creation_dates []) < 2 \<and>
   trend (analyze_trends []) = ''stable'' \<and>
   trend (analyze_trends []) \<noteq> ''insufficient_data''"
  by (simp add: creation_dates_def analyze_trends_def)

text \<open>
  Claim C6, as amended. More severe alerts never lower the risk level, in the order LOW,
  MEDIUM, HIGH, CRITICAL, where the severe alerts are those the scorer counts.
  \<^verbatim>\<open>calculate_risk_level\<close> of \<^verbatim>\<open>main.py\<close> receives the count of severe alerts: the level does
  not fall when that count grows and the count of recent alerts is the same.
  \<^verbatim>\<open>calculate_risk_level\<close> of \<^verbatim>\<open>advanced_mcp.py\<close> receives the histogram of severities and
  reads the entries of the severities 3 and 4 only: the level does not fall when these two
  entries together grow and no other entry shrinks, whatever severities the histogram
  has. The two \<^verbatim>\<open>risk_assessment\<close> endpoints count the alerts of severity 3 or more: the
  level does not fall when two snapshots differ in the severities of their alerts only, so
  that clusters, trend and external alerts are the same, and the second has at least as
  many such alerts; the endpoint of \<^verbatim>\<open>advanced_mcp.py\<close> then fails on both snapshots or on
  neither.
\<close>

theorem risk_monotone:
  "(h \<le> h' \<longrightarrow> level_le (calculate_risk_level h r) (calculate_risk_level h' r)) \<and>
   (distinct (map fst sc) \<and>
    (\<forall>k. k \<noteq> 3 \<and> k \<noteq> 4 \<longrightarrow> lookup sc k \<le> lookup sc' k) \<and>
    lookup sc 3 + lookup sc 4 \<le> lookup sc' 3 + lookup sc' 4 \<longrightarrow>
      level_le (calculate_risk_level_advanced sc r) (calculate_risk_level_advanced sc' r)) \<and>
   (same_but_severity xs ys \<and> length (high_severity xs) \<le> length (high_severity ys) \<longrightarrow>
      level_le (risk_level (risk_assessment (Reply st xs)))
               (risk_level (risk_assessment (Reply st ys))) \<and>
      (case (risk_assessment_advanced (Reply st xs) ext,
             risk_assessment_advanced (Reply st ys) ext) of
         (Inr p, Inr q) \<Rightarrow> level_le (risk_level p) (risk_level q)
       | (Inl e, Inl e') \<Rightarrow> e = e'
       | _ \<Rightarrow> False))"
  using calc_main_mono [of h h' r] calc_advanced_mono [of sc sc' r]
    risk_main_mono [of xs ys st] risk_advanced_mono [of xs ys st ext]
  by blast

text \<open>
  Inputs that satisfy the hypotheses of C6, with a strictly higher level for the two
  scorers; the histograms hold an alert of severity 5.
\<close>

theorem risk_monotone_witness:
  "(1::nat) \<le> 6 \<and> calculate_risk_level 1 1 = ''LOW'' \<and> calculate_risk_level 6 1 = ''HIGH'' \<and>
   distinct (map fst [(1::int, 2::nat), (3, 1), (5, 1)]) \<and>
   lookup [(1, 2), (3, 1), (5, 1)] 3 + lookup [(1, 2), (3, 1), (5, 1)] 4
     \<le> lookup [(1, 2), (3, 4), (4, 2), (5, 1)] 3 + lookup [(1, 2), (3, 4), (4, 2), (5, 1)] 4 \<and>
   calculate_risk_level_advanced [(1, 2), (3, 1), (5, 1)] 1 = ''BAJO'' \<and>
   calculate_risk_level_advanced [(1, 2), (3, 4), (4, 2), (5, 1)] 1 = ''ALTO'' \<and>
   level_le (calculate_risk_level_advanced [(1, 2), (3, 1), (5, 1)] 1)
            (calculate_risk_level_advanced [(1, 2), (3, 4), (4, 2), (5, 1)] 1) \<and>
   same_but_severity [alert_mon, alert_tue] [alert_mon_severe, alert_tue] \<and>
   length (high_severity [alert_mon, alert_tue]) = 0 \<and>
   length (high_severity [alert_mon_severe, alert_tue]) = 1 \<and>
   level_le (risk_level (risk_assessment (Reply 200 [alert_mon, alert_tue])))
            (risk_level (risk_assessment (Reply 200 [alert_mon_severe, alert_tue]))) \<and>
   level_le ''LOW'' ''HIGH'' \<and> level_le ''BAJO'' ''ALTO'' \<and> \<not> level_le ''HIGH'' ''LOW''"
proof -
  have a: "(1::nat) \<le> 6" by simp
  have b: "distinct (map fst [(1::int, 2::nat), (3, 1), (5, 1)])"
    "lookup [(1, 2), (3, 1), (5, 1)] 3 + lookup [(1, 2), (3, 1), (5, 1)] 4
       \<le> lookup [(1, 2), (3, 4), (4, 2), (5, 1)] 3 + lookup [(1, 2), (3, 4), (4, 2), (5, 1)] 4"
    by (simp_all add: lookup_def)
  have r: "\<forall>k. k \<noteq> 3 \<and> k \<noteq> 4 \<longrightarrow>
      lookup [(1, 2), (3, 1), (5, 1)] k \<le> lookup [(1, 2), (3, 4), (4, 2), (5, 1)] k"
    by (simp add: lookup_def)
  have c: "same_but_severity [alert_mon, alert_tue] [alert_mon_severe, alert_tue]"
    by (simp add: same_but_severity_def blank_def alert_mon_def alert_mon_severe_def)
  have d: "length (high_severity [alert_mon, alert_tue]) = 0"
    "length (high_severity [alert_mon_severe, alert_tue]) = 1"
    by (simp_all add: high_severity_def get_severity_def alert_mon_def alert_mon_severe_def
        alert_tue_def)
  have dle: "length (high_severity [alert_mon, alert_tue])
      \<le> length (high_severity [alert_mon_severe, alert_tue])"
    using d by simp
  have v: "calculate_risk_level 1 1 = ''LOW''" "calculate_risk_level 6 1 = ''HIGH''"
    "calculate_risk_level_advanced [(1, 2), (3, 1), (5, 1)] 1 = ''BAJO''"
    "calculate_risk_level_advanced [(1, 2), (3, 4), (4, 2), (5, 1)] 1 = ''ALTO''"
    by (simp_all add: calculate_risk_level_def calculate_risk_level_advanced_def
        dashboard_score_def lookup_def Let_def)
  have l: "level_le ''LOW'' ''HIGH''" "level_le ''BAJO'' ''ALTO''" "\<not> level_le ''HIGH'' ''LOW''"
    by (simp_all add: level_le_def level_of_def)
  from risk_monotone [of 1 6 1 "[(1, 2), (3, 1), (5, 1)]" "[(1, 2), (3, 4), (4, 2), (5, 1)]"
      "[alert_mon, alert_tue]" "[alert_mon_severe, alert_tue]" 200 "Reply 200 []"]
    b r c dle
  have "level_le (calculate_risk_level_advanced [(1, 2), (3, 1), (5, 1)] 1)
            (calculate_risk_level_advanced [(1, 2), (3, 4), (4, 2), (5, 1)] 1) \<and>
        level_le (risk_level (risk_assessment (Reply 200 [alert_mon, alert_tue])))
            (risk_level (risk_assessment (Reply 200 [alert_mon_severe, alert_tue])))"
    by blast
  with a b c d v l show ?thesis by simp
qed

text \<open>
  As C6 was worded, with the severe alerts those of severity 3 or more, it fails for
  \<^verbatim>\<open>calculate_risk_level\<close> of \<^verbatim>\<open>advanced_mcp.py\<close>, which does not count an alert of severity
  5. The histograms \<^verbatim>\<open>{3: 6, 1: 1}\<close> and \<^verbatim>\<open>{3: 5, 5: 2, 1: 1}\<close> agree below severity 3 and
  hold 6 and 7 alerts of severity 3 or more; with no recent alert the level falls from
  \<^verbatim>\<open>ALTO\<close> to \<^verbatim>\<open>MEDIO\<close>.
\<close>

theorem risk_severity_five_counterexample:
  "distinct (map fst [(3::int, 6::nat), (1, 1)]) \<and>
   distinct (map fst [(3::int, 5::nat), (5, 2), (1, 1)]) \<and>
   filter (\<lambda>kv. fst kv < 3) [(3::int, 6::nat), (1, 1)] =
     filter (\<lambda>kv. fst kv < 3) [(3, 5), (5, 2), (1, 1)] \<and>
   sum_list (map snd (filter (\<lambda>kv. 3 \<le> fst kv) [(3::int, 6::nat), (1, 1)])) = 6 \<and>
   sum_list (map snd (filter (\<lambda>kv. 3 \<le> fst kv) [(3::int, 5::nat), (5, 2), (1, 1)])) = 7 \<and>
   calculate_risk_level_advanced [(3, 6), (1, 1)] 0 = ''ALTO'' \<and>
   calculate_risk_level_advanced [(3, 5), (5, 2), (1, 1)] 0 = ''MEDIO'' \<and>
   level_of ''ALTO'' = Some HIGH \<and> level_of ''MEDIO'' = Some MEDIUM \<and>
   \<not> level_le (calculate_risk_level_advanced [(3, 6), (1, 1)] 0)
               (calculate_risk_level_advanced [(3, 5), (5, 2), (1, 1)] 0)"
proof -
  have v: "calculate_risk_level_advanced [(3, 6), (1, 1)] 0 = ''ALTO''"
    "calculate_risk_level_advanced [(3, 5), (5, 2), (1, 1)] 0 = ''MEDIO''"
    by (simp_all add: calculate_risk_level_advanced_def dashboard_score_def lookup_def Let_def)
  have l: "level_of ''ALTO'' = Some HIGH" "level_of ''MEDIO'' = Some MEDIUM"
    "\<not> level_le ''ALTO'' ''MEDIO''"
    by (simp_all add: level_le_def level_of_def)
  from v l show ?thesis by simp
qed

text \<open>
  Claim C8. On the empty snapshot, with no external alerts, both \<^verbatim>\<open>risk_assessment\<close>
  endpoints return an assessment, not an error: the lowest level (\<^verbatim>\<open>LOW\<close> in \<^verbatim>\<open>main.py\<close>,
  spelled \<^verbatim>\<open>BAJO\<close> in \<^verbatim>\<open>advanced_mcp.py\<close>), confidence 0, no factor and no recommendation.
  The snapshot is also empty when the backend answers with a status other than 200.
\<close>

theorem risk_of_empty_snapshot:
  "risk_assessment (Reply st []) =
     \<lparr>risk_level = ''LOW'', confidence = 0, factors = [], recommendations = []\<rparr> \<and>
   level_of ''LOW'' = Some LOW \<and>
   risk_assessment_advanced (Reply st []) (Reply st' []) =
     Inr \<lparr>risk_level = ''BAJO'', confidence = 0, factors = [], recommendations = []\<rparr> \<and>
   level_of ''BAJO'' = Some LOW"
  by (simp add: risk_empty_main risk_empty_advanced level_of_def)


section \<open>Claims about the recommendations\<close>








section \<open>Claims about the ingestion\<close>

text \<open>
  Claim C1, as amended. Ingestion calls run one after another. A batch of
  \<^verbatim>\<open>fetch_google_alerts\<close> inserts an alert only when no row has its title, and
  \<^verbatim>\<open>create_alert\<close> inserts every submission it accepts, without a look at the titles in
  the store. So after any sequence of calls the number of rows with a title is at most
  the number of submissions of that title through \<^verbatim>\<open>create_alert\<close>, plus one (plus what
  the store held of it before, when that was more than one). In particular a title that
  is never submitted through \<^verbatim>\<open>create_alert\<close> keeps at most one row, and every accepted
  submission adds a row with its title.
\<close>

theorem dedup_by_title:
  "length (titled t (run cs store)) \<le>
     max 1 (length (titled t store)) + length (filter (submits t) cs) \<and>
   (length (titled t store) \<le> 1 \<and> filter (submits t) cs = [] \<longrightarrow>
      length (titled t (run cs store)) \<le> 1) \<and>
   (create_alert c store = (Inr a, store') \<longrightarrow>
      length (titled (AlertCreate.title c) store') =
        Suc (length (titled (AlertCreate.title c) store)))"
proof -
  have 1: "length (titled t (run cs store)) \<le>
     max 1 (length (titled t store)) + length (filter (submits t) cs)"
    by (rule run_titled)
  then have 2: "length (titled t store) \<le> 1 \<and> filter (submits t) cs = [] \<longrightarrow>
      length (titled t (run cs store)) \<le> 1"
    by auto
  have 3: "create_alert c store = (Inr a, store') \<longrightarrow>
      length (titled (AlertCreate.title c) store') =
        Suc (length (titled (AlertCreate.title c) store))"
    using create_accepted [of c store a store'] by (auto simp: titled_def)
  from 1 2 3 show ?thesis by simp
qed

text \<open>
  A feed with the same title twice, fetched twice, leaves one row; a submission of that
  title after the feed adds a second.
\<close>

theorem dedup_by_title_witness:
  "length (titled ''Flood'' []) \<le> 1 \<and>
   filter (submits ''Flood'') [Fetch flood_feed, Fetch flood_feed] = [] \<and>
   length (titled ''Flood'' (run [Fetch flood_feed, Fetch flood_feed] [])) = 1 \<and>
   length (filter (submits ''Flood'') [Fetch flood_feed, Create flood_report]) = 1 \<and>
   length (titled ''Flood'' (run [Fetch flood_feed, Create flood_report] [])) = 2"
proof -
  have a: "length (titled ''Flood'' (run [Fetch flood_feed, Fetch flood_feed] [])) = 1"
    using run_feed_twice [THEN arg_cong, of length] by simp
  have b: "length (titled ''Flood'' (run [Fetch flood_feed, Create flood_report] [])) = 2"
    using run_feed_then_report [THEN arg_cong, of length] by simp
  have c: "length (filter (submits ''Flood'') [Fetch flood_feed, Create flood_report]) = 1"
    by (simp add: flood_report_def)
  from dedup_by_title [of "''Flood''" "[Fetch flood_feed, Fetch flood_feed]" "[]"] a b c
  show ?thesis by (simp add: titled_def)
qed

text \<open>
  Claim C1 as stated fails for \<^verbatim>\<open>create_alert\<close>: the same submission made twice leaves two
  rows with its title.
\<close>

theorem duplicate_submission_counterexample:
  "map Alert.alert_id (titled ''Flood'' (run [Create flood_report, Create flood_report] [])) = [1, 2] \<and>
   length (titled ''Flood'' (run [Create flood_report, Create flood_report] [])) = 2"
  by (simp add: flood_report_def create_alert_def insert_row_def titled_def Let_def)


section \<open>Claims about the source adapters\<close>

text \<open>
  Claim C7 holds for the four adapters of \<^verbatim>\<open>external_data.py\<close> and fails for
  \<^verbatim>\<open>fetch_google_alerts\<close>, which has no handler: when the call to the provider raises, the
  exception reaches the caller, with the store as it was.
\<close>

theorem google_adapter_propagates:
  "fetch_google_alerts (Raised e) store = (Some (RequestException e), store)"
  by (simp add: fetch_google_alerts_def)

end
